theory Spec2Isabelle
  imports Main "HOL-Library.Word"
begin

section \<open>Data model of pkg/mimirpb/prealloc\_rw2.go\<close>

text \<open>
  A Go slice is a window on a backing array: its live elements and its capacity. The code
  of this file reads \<open>len\<close> and \<open>cap\<close>, appends, overwrites live elements and reslices to
  \<open>s[:0]\<close>; it never reslices upwards, so the array beyond the live elements is never
  observed and is not represented. A nil slice and an empty slice of capacity 0 have the
  same \<open>len\<close> and \<open>cap\<close>; they are told apart only where the code tests for nil (the
  exemplar list), and there the model uses \<open>option\<close>.
  Slices of the incoming request that are only read (series, labels, samples, histograms,
  metadata) are plain lists.
\<close>

record 'a slice =
  elems :: "'a list"
  cap :: nat

definition make_slice :: "nat \<Rightarrow> 'a slice" where
  \<comment> \<open>\<open>make([]T, 0, n)\<close>\<close>
  "make_slice n = \<lparr>elems = [], cap = n\<rparr>"

definition reslice0 :: "'a slice \<Rightarrow> 'a slice" where
  \<comment> \<open>\<open>s[:0]\<close>\<close>
  "reslice0 s = s\<lparr>elems := []\<rparr>"

definition wf_slice :: "'a slice \<Rightarrow> bool" where
  \<comment> \<open>every Go slice has \<open>len(s) <= cap(s)\<close>\<close>
  "wf_slice s = (length (elems s) \<le> cap s)"

text \<open>
  The run-time environment of the package: the growth policy of the built-in \<open>append\<close>
  (the Go runtime's \<open>growslice\<close>, given the old capacity and the needed length) and the two
  capacity constants of the pool of symbol-list buffers, which are declared in another file
  of the package. Nothing is assumed about them.
\<close>

record Env =
  growslice :: "nat \<Rightarrow> nat \<Rightarrow> nat"
  minPreallocatedSymbols :: nat
  maxPreallocatedSymbols :: nat

definition append_slice :: "Env \<Rightarrow> 'a slice \<Rightarrow> 'a list \<Rightarrow> 'a slice" where
  \<comment> \<open>\<open>append(s, xs...)\<close>: in place when the capacity suffices, else into a new array
      of at least the needed length\<close>
  "append_slice E s xs =
     (let n = length (elems s) + length xs
      in if n \<le> cap s then s\<lparr>elems := elems s @ xs\<rparr>
         else \<lparr>elems = elems s @ xs, cap = max n (growslice E (cap s) n)\<rparr>)"

text \<open>
  Symbol references are \<open>uint32\<close> in the Go code. This file only copies them; the
  arithmetic that produces them belongs to the symbol table, and the spec defines a
  reference as an integer index into the symbol list. They are natural numbers here, and
  so is the offset of the common symbols.
\<close>

type_synonym SymbolRef = nat

text \<open>Float values are carried as their 64 bits; timestamps are \<open>int64\<close>.\<close>

type_synonym float64 = "64 word"
type_synonym int64 = "64 word"
type_synonym int32 = "32 word"

typedecl Sample
typedecl Histogram

record LabelAdapter =
  Name :: string
  Value :: string

record Exemplar =
  Labels_Exemplar :: "LabelAdapter list"
  Value_Exemplar :: float64
  TimestampMs :: int64

record ExemplarRW2 =
  LabelsRefs_ExemplarRW2 :: "SymbolRef slice"
  Value_ExemplarRW2 :: float64
  Timestamp :: int64

record MetricMetadata =
  Type :: int32
  MetricFamilyName :: string
  Help :: string
  Unit :: string

record MetadataRW2 =
  Type_RW2 :: int32
  HelpRef :: SymbolRef
  UnitRef :: SymbolRef

record TimeSeries =
  Labels :: "LabelAdapter list"
  Samples :: "Sample list"
  Histograms :: "Histogram list"
  Exemplars :: "Exemplar list option"
  CreatedTimestamp :: int64

record TimeSeriesRW2 =
  LabelsRefs :: "SymbolRef slice"
  Samples_RW2 :: "Sample list"
  Histograms_RW2 :: "Histogram list"
  Exemplars_RW2 :: "ExemplarRW2 slice option"
  Metadata_RW2 :: MetadataRW2
  CreatedTimestamp_RW2 :: int64

text \<open>
  One \<open>WriteRequest\<close> type serves both representations. \<open>Metadata\<close> is a slice of
  pointers: \<open>None\<close> is a nil entry.
\<close>

record WriteRequest =
  Timeseries :: "TimeSeries list"
  Metadata :: "MetricMetadata option list"
  Source :: int32
  SkipLabelValidation :: bool
  SkipLabelCountValidation :: bool
  skipUnmarshalingExemplars :: bool
  SymbolsRW2 :: "string slice"
  TimeseriesRW2 :: "TimeSeriesRW2 slice"

definition zero_MetadataRW2 :: MetadataRW2 where
  \<comment> \<open>\<open>MetadataRW2{}\<close>\<close>
  "zero_MetadataRW2 = \<lparr>Type_RW2 = 0, HelpRef = 0, UnitRef = 0\<rparr>"

definition zero_TimeSeriesRW2 :: TimeSeriesRW2 where
  \<comment> \<open>\<open>TimeSeriesRW2{}\<close>\<close>
  "zero_TimeSeriesRW2 =
     \<lparr>LabelsRefs = make_slice 0, Samples_RW2 = [], Histograms_RW2 = [],
      Exemplars_RW2 = None, Metadata_RW2 = zero_MetadataRW2, CreatedTimestamp_RW2 = 0\<rparr>"

datatype error = AlreadyRW2Error | NilPointerDereference

section \<open>The symbol table\<close>

text \<open>
  Modelled from the spec: the symbol table (\<open>symbolsTableFromPool\<close>,
  \<open>ConfigureCommonSymbols\<close>, \<open>Symbolize\<close>, \<open>SymbolsPrealloc\<close>, \<open>reuseSymbolsTable\<close>) and the
  \<open>CommonSymbols\<close> type are declared in other files of the package, which this
  development does not have. The dictionary of common symbols is the list of its strings,
  and a nil dictionary is the empty list. The spec: the table maps a string to its
  first-assigned reference; \<open>configure_common\<close> pre-assigns references for every string
  of the dictionary starting at the offset;
  symbolizing a string of the common region returns the pre-seeded reference rather than
  allocating a new slot; the symbol list preserves first-assignment order except for the
  common region, which occupies its configured offset range; the empty string is symbolized
  like any other string. The spec's scenario lists the symbols of a call after the common
  region. The spec does not say what the symbol list holds below the offset; the model
  puts empty strings there.
\<close>

record SymbolsTable =
  offset :: nat
  commonSymbols :: "string list"
  symbols :: "string list"

fun indexOf :: "'a \<Rightarrow> 'a list \<Rightarrow> nat option" where
  "indexOf s [] = None"
| "indexOf s (x # xs) = (if x = s then Some 0 else map_option Suc (indexOf s xs))"

definition newSymbolsTable :: SymbolsTable where
  \<comment> \<open>Modelled from the spec: a table at the start of a conversion call holds nothing\<close>
  "newSymbolsTable = \<lparr>offset = 0, commonSymbols = [], symbols = []\<rparr>"

definition ConfigureCommonSymbols :: "nat \<Rightarrow> string list \<Rightarrow> SymbolsTable \<Rightarrow> SymbolsTable" where
  \<comment> \<open>Modelled from the spec: \<open>configure_common(offset, dictionary)\<close>\<close>
  "ConfigureCommonSymbols off common t = t\<lparr>offset := off, commonSymbols := common\<rparr>"

definition Symbolize :: "string \<Rightarrow> SymbolsTable \<Rightarrow> SymbolRef \<times> SymbolsTable" where
  \<comment> \<open>Modelled from the spec: \<open>symbolize(s)\<close>; a common symbol has its pre-seeded
      reference, a string seen before has its first reference, a new string has the next
      reference after the common region and the strings seen before\<close>
  "Symbolize str t =
     (case indexOf str (commonSymbols t) of
        Some i \<Rightarrow> (offset t + i, t)
      | None \<Rightarrow>
          (case indexOf str (symbols t) of
             Some j \<Rightarrow> (offset t + length (commonSymbols t) + j, t)
           | None \<Rightarrow> (offset t + length (commonSymbols t) + length (symbols t),
                      t\<lparr>symbols := symbols t @ [str]\<rparr>)))"

definition exportSymbols :: "SymbolsTable \<Rightarrow> string list" where
  \<comment> \<open>Modelled from the spec: the symbol list, in which every reference is an index\<close>
  "exportSymbols t = replicate (offset t) [] @ commonSymbols t @ symbols t"

definition SymbolsPrealloc :: "string slice \<Rightarrow> SymbolsTable \<Rightarrow> string slice" where
  \<comment> \<open>Modelled from the spec: \<open>export(buffer)\<close>, which reuses the caller's buffer when it
      is large enough\<close>
  "SymbolsPrealloc prealloc t =
     \<lparr>elems = exportSymbols t, cap = max (cap prealloc) (length (exportSymbols t))\<rparr>"

section \<open>The pools\<close>

text \<open>
  The package-level pools are the state that the functions of this file share. A pool is
  the list of the buffers it retains, the most recently released first. \<open>Get\<close> takes the
  most recent one, or builds a new one (\<open>New\<close>) when the pool is empty; which retained
  buffer a \<open>sync.Pool\<close> hands out is unspecified, and the theorems below hold for every
  pool content.
\<close>

definition minPreallocatedTimeseriesRW2 :: nat where "minPreallocatedTimeseriesRW2 = 100"
definition maxPreallocatedTimeseriesRW2 :: nat where "maxPreallocatedTimeseriesRW2 = 10000"
definition minPreallocatedLabelsRefs :: nat where "minPreallocatedLabelsRefs = 20"
definition maxPreallocatedLabelsRefs :: nat where "maxPreallocatedLabelsRefs = 200"

text \<open>
  Modelled from the spec: the pool of symbol tables and the pool of symbol-list buffers
  (\<open>symbolsTableFromPool\<close>, \<open>reuseSymbolsTable\<close>, \<open>symbolsSliceFromPool\<close>,
  \<open>reuseSymbolsSlice\<close>) are declared in other files of the package, which this
  development does not have.
  The spec gives every pool the same contract: acquire returns a retained buffer of zero
  length or a new one of the minimum capacity; release clears every live element and
  retains the buffer unless its capacity is zero or above the maximum. A released table is
  cleared, so the pool of tables is the number of tables it retains.
\<close>

record pools =
  preallocTimeseriesRW2SlicePool :: "TimeSeriesRW2 slice list"
  preallocLabelsRefsSlicePool :: "SymbolRef slice list"
  symbolsTablePool :: nat
  symbolsSlicePool :: "string slice list"

definition symbolsTableFromPool :: "pools \<Rightarrow> SymbolsTable \<times> pools" where
  \<comment> \<open>Modelled from the spec: acquire of the pool of symbol tables\<close>
  "symbolsTableFromPool P =
     (if symbolsTablePool P = 0 then (newSymbolsTable, P)
      else (newSymbolsTable, P\<lparr>symbolsTablePool := symbolsTablePool P - 1\<rparr>))"

definition reuseSymbolsTable :: "SymbolsTable \<Rightarrow> pools \<Rightarrow> pools" where
  \<comment> \<open>Modelled from the spec: release of the pool of symbol tables; the spec names no
      capacity of a table, so the table is always retained\<close>
  "reuseSymbolsTable t P = P\<lparr>symbolsTablePool := Suc (symbolsTablePool P)\<rparr>"

definition symbolsSliceFromPool :: "Env \<Rightarrow> pools \<Rightarrow> string slice \<times> pools" where
  \<comment> \<open>Modelled from the spec: acquire of the pool of symbol-list buffers\<close>
  "symbolsSliceFromPool E P =
     (case symbolsSlicePool P of
        [] \<Rightarrow> (make_slice (minPreallocatedSymbols E), P)
      | s # rest \<Rightarrow> (s, P\<lparr>symbolsSlicePool := rest\<rparr>))"

definition reuseSymbolsSlice :: "Env \<Rightarrow> string slice \<Rightarrow> pools \<Rightarrow> string slice \<times> pools" where
  \<comment> \<open>Modelled from the spec: release of the pool of symbol-list buffers, in the shape of
      the two release functions of lines 39-72\<close>
  "reuseSymbolsSlice E s P =
     (if cap s = 0 then (s, P)
      else if cap s > maxPreallocatedSymbols E then (s, P)
      else (let s' = s\<lparr>elems := map (\<lambda>_. []) (elems s)\<rparr>
            in (s', P\<lparr>symbolsSlicePool := reslice0 s' # symbolsSlicePool P\<rparr>)))"

subsection \<open>Lines 35-72: acquire and release\<close>

text \<open>
  A release function writes through its argument, so it returns the caller's view of the
  slice after the call together with the pools.
\<close>

definition labelsRefsSliceFromPool :: "pools \<Rightarrow> SymbolRef slice \<times> pools" where
  "labelsRefsSliceFromPool P =
     (case preallocLabelsRefsSlicePool P of
        [] \<Rightarrow> (make_slice minPreallocatedLabelsRefs, P)
      | s # rest \<Rightarrow> (s, P\<lparr>preallocLabelsRefsSlicePool := rest\<rparr>))"

definition reuseLabelsRefsSlice :: "SymbolRef slice \<Rightarrow> pools \<Rightarrow> SymbolRef slice \<times> pools" where
  "reuseLabelsRefsSlice s P =
     (if cap s = 0 then (s, P)
      else if cap s > maxPreallocatedLabelsRefs then (s, P)
      else (let s' = s\<lparr>elems := map (\<lambda>_. 0) (elems s)\<rparr>
            in (s', P\<lparr>preallocLabelsRefsSlicePool :=
                        reslice0 s' # preallocLabelsRefsSlicePool P\<rparr>)))"

definition timeSeriesRW2SliceFromPool :: "pools \<Rightarrow> TimeSeriesRW2 slice \<times> pools" where
  "timeSeriesRW2SliceFromPool P =
     (case preallocTimeseriesRW2SlicePool P of
        [] \<Rightarrow> (make_slice minPreallocatedTimeseriesRW2, P)
      | s # rest \<Rightarrow> (s, P\<lparr>preallocTimeseriesRW2SlicePool := rest\<rparr>))"

text \<open>The loop of lines 67-70 over the live elements.\<close>

fun reuseElements :: "TimeSeriesRW2 list \<Rightarrow> pools \<Rightarrow> TimeSeriesRW2 list \<times> pools" where
  "reuseElements [] P = ([], P)"
| "reuseElements (e # es) P =
     (let (r, P1) = reuseLabelsRefsSlice (LabelsRefs e) P;
          (es', P2) = reuseElements es P1
      in (zero_TimeSeriesRW2 # es', P2))"

definition reuseTimeSeriesRW2Slice ::
  "TimeSeriesRW2 slice \<Rightarrow> pools \<Rightarrow> TimeSeriesRW2 slice \<times> pools" where
  "reuseTimeSeriesRW2Slice s P =
     (if cap s = 0 then (s, P)
      else if cap s > maxPreallocatedTimeseriesRW2 then (s, P)
      else (let (es', P1) = reuseElements (elems s) P;
                s' = s\<lparr>elems := es'\<rparr>
            in (s', P1\<lparr>preallocTimeseriesRW2SlicePool :=
                         reslice0 s' # preallocTimeseriesRW2SlicePool P1\<rparr>)))"

subsection \<open>Lines 74-77: ReuseRW2\<close>

definition ReuseRW2 :: "Env \<Rightarrow> WriteRequest option \<Rightarrow> pools \<Rightarrow> (error + WriteRequest) \<times> pools" where
  "ReuseRW2 E req P =
     (case req of
        None \<Rightarrow> (Inl NilPointerDereference, P)
      | Some r \<Rightarrow>
          (let (syms', P1) = reuseSymbolsSlice E (SymbolsRW2 r) P;
               (ts', P2) = reuseTimeSeriesRW2Slice (TimeseriesRW2 r) P1
           in (Inr (r\<lparr>SymbolsRW2 := syms', TimeseriesRW2 := ts'\<rparr>), P2)))"

section \<open>The converters\<close>

text \<open>
  \<open>StringSymbolizer\<close> is an interface: the converters of lines 148-181 take the \<open>Symbolize\<close>
  method \<open>symf\<close> and the state \<open>t\<close> of the object behind it, and return the state after
  their calls.
\<close>

text \<open>
  The label loops of lines 116-118 and 156-158: both append the reference of the name and
  then the reference of the value of each label, in order.
\<close>

fun symbolizeLabels ::
  "Env \<Rightarrow> (string \<Rightarrow> 't \<Rightarrow> SymbolRef \<times> 't) \<Rightarrow> LabelAdapter list \<Rightarrow> SymbolRef slice \<Rightarrow> 't
     \<Rightarrow> SymbolRef slice \<times> 't" where
  "symbolizeLabels E symf [] refs t = (refs, t)"
| "symbolizeLabels E symf (l # ls) refs t =
     (let (a, t1) = symf (Name l) t;
          (b, t2) = symf (Value l) t1
      in symbolizeLabels E symf ls (append_slice E refs [a, b]) t2)"

text \<open>Lines 154-166.\<close>

fun exemplarsLoop ::
  "Env \<Rightarrow> (string \<Rightarrow> 't \<Rightarrow> SymbolRef \<times> 't) \<Rightarrow> Exemplar list \<Rightarrow> ExemplarRW2 slice \<Rightarrow> 't
     \<Rightarrow> ExemplarRW2 slice \<times> 't" where
  "exemplarsLoop E symf [] result t = (result, t)"
| "exemplarsLoop E symf (ex # exs) result t =
     (let (refs, t1) = symbolizeLabels E symf (Labels_Exemplar ex)
                         (make_slice (length (Labels_Exemplar ex) * 2)) t;
          exv2 = \<lparr>LabelsRefs_ExemplarRW2 = refs,
                  Value_ExemplarRW2 = Value_Exemplar ex,
                  Timestamp = TimestampMs ex\<rparr>
      in exemplarsLoop E symf exs (append_slice E result [exv2]) t1)"

definition FromExemplarsToExemplarsRW2 ::
  "Env \<Rightarrow> (string \<Rightarrow> 't \<Rightarrow> SymbolRef \<times> 't) \<Rightarrow> Exemplar list option \<Rightarrow> 't
     \<Rightarrow> ExemplarRW2 slice option \<times> 't" where
  "FromExemplarsToExemplarsRW2 E symf exemplars t =
     (case exemplars of
        None \<Rightarrow> (None, t)
      | Some exs \<Rightarrow>
          (let (result, t') = exemplarsLoop E symf exs (make_slice (length exs)) t
           in (Some result, t')))"

definition FromMetricMetadataToMetadataRW2 ::
  "(string \<Rightarrow> 't \<Rightarrow> SymbolRef \<times> 't) \<Rightarrow> MetricMetadata option \<Rightarrow> 't \<Rightarrow> MetadataRW2 \<times> 't" where
  "FromMetricMetadataToMetadataRW2 symf metadata t =
     (case metadata of
        None \<Rightarrow> (zero_MetadataRW2, t)
      | Some m \<Rightarrow>
          (let (h, t1) = symf (Help m) t;
               (u, t2) = symf (Unit m) t1
           in (\<lparr>Type_RW2 = Type m, HelpRef = h, UnitRef = u\<rparr>, t2)))"

section \<open>Lines 82-146: FromWriteRequestToRW2Request\<close>

text \<open>Lines 110-114: the reference buffer a series starts appending into.\<close>

definition stringsPerLabel :: nat where "stringsPerLabel = 2"

definition acquireLabelsRefs :: "nat \<Rightarrow> pools \<Rightarrow> SymbolRef slice \<times> pools" where
  "acquireLabelsRefs expLabelsCount P =
     (let (refs, P1) = labelsRefsSliceFromPool P
      in if cap refs < stringsPerLabel then (make_slice expLabelsCount, P1) else (refs, P1))"

text \<open>Lines 108-128.\<close>

fun timeseriesLoop ::
  "Env \<Rightarrow> TimeSeries list \<Rightarrow> TimeSeriesRW2 slice \<Rightarrow> SymbolsTable \<Rightarrow> pools
     \<Rightarrow> TimeSeriesRW2 slice \<times> SymbolsTable \<times> pools" where
  "timeseriesLoop E [] rw2Timeseries t P = (rw2Timeseries, t, P)"
| "timeseriesLoop E (ts # rest) rw2Timeseries t P =
     (let expLabelsCount = length (Labels ts) * stringsPerLabel;
          (refs0, P1) = acquireLabelsRefs expLabelsCount P;
          (refs, t1) = symbolizeLabels E Symbolize (Labels ts) refs0 t;
          (exs, t2) = FromExemplarsToExemplarsRW2 E Symbolize (Exemplars ts) t1;
          series = \<lparr>LabelsRefs = refs,
                    Samples_RW2 = Samples ts,
                    Histograms_RW2 = Histograms ts,
                    Exemplars_RW2 = exs,
                    Metadata_RW2 = zero_MetadataRW2,
                    CreatedTimestamp_RW2 = CreatedTimestamp ts\<rparr>
      in timeseriesLoop E rest (append_slice E rw2Timeseries [series]) t2 P1)"

text \<open>
  Lines 132-139. \<open>meta.MetricFamilyName\<close> dereferences the entry: a nil entry panics,
  which is \<open>None\<close> here.
\<close>

fun metadataLoop ::
  "Env \<Rightarrow> MetricMetadata option list \<Rightarrow> TimeSeriesRW2 slice \<Rightarrow> SymbolsTable
     \<Rightarrow> (TimeSeriesRW2 slice \<times> SymbolsTable) option" where
  "metadataLoop E [] rw2Timeseries t = Some (rw2Timeseries, t)"
| "metadataLoop E (meta # rest) rw2Timeseries t =
     (let (n, t1) = Symbolize ''__name__'' t
      in case meta of
           None \<Rightarrow> None
         | Some m \<Rightarrow>
             (let (f, t2) = Symbolize (MetricFamilyName m) t1;
                  labelsRefs = \<lparr>elems = [n, f], cap = 2\<rparr>;
                  (rw2meta, t3) = FromMetricMetadataToMetadataRW2 Symbolize meta t2;
                  series = zero_TimeSeriesRW2\<lparr>LabelsRefs := labelsRefs, Metadata_RW2 := rw2meta\<rparr>
              in metadataLoop E rest (append_slice E rw2Timeseries [series]) t3))"

definition FromWriteRequestToRW2Request ::
  "Env \<Rightarrow> WriteRequest option \<Rightarrow> string list \<Rightarrow> nat \<Rightarrow> pools
     \<Rightarrow> (error + WriteRequest option) \<times> pools" where
  "FromWriteRequestToRW2Request E rw1 common off P =
     (case rw1 of
        None \<Rightarrow> (Inr None, P)
      | Some r \<Rightarrow>
          if length (elems (SymbolsRW2 r)) > 0 \<or> length (elems (TimeseriesRW2 r)) > 0
          then (Inl AlreadyRW2Error, P)
          else
            (let rw2 = \<lparr>Timeseries = [], Metadata = [],
                        Source = Source r,
                        SkipLabelValidation = SkipLabelValidation r,
                        SkipLabelCountValidation = SkipLabelCountValidation r,
                        skipUnmarshalingExemplars = skipUnmarshalingExemplars r,
                        SymbolsRW2 = make_slice 0, TimeseriesRW2 = make_slice 0\<rparr>;
                 (symbols0, P1) = symbolsTableFromPool P;
                 symbols1 = ConfigureCommonSymbols off common symbols0;
                 expTimeseriesCount = length (Timeseries r) + length (Metadata r);
                 (pooled, P2) = timeSeriesRW2SliceFromPool P1;
                 rw2Timeseries0 = (if cap pooled < expTimeseriesCount
                                   then make_slice expTimeseriesCount else pooled);
                 (rw2Timeseries1, symbols2, P3) =
                    timeseriesLoop E (Timeseries r) rw2Timeseries0 symbols1 P2
             in case metadataLoop E (Metadata r) rw2Timeseries1 symbols2 of
                  None \<Rightarrow> (Inl NilPointerDereference, reuseSymbolsTable symbols2 P3)
                | Some (rw2Timeseries2, symbols3) \<Rightarrow>
                    (let (syms, P4) = symbolsSliceFromPool E P3;
                         rw2' = rw2\<lparr>TimeseriesRW2 := rw2Timeseries2,
                                    SymbolsRW2 := SymbolsPrealloc syms symbols3\<rparr>
                     in (Inr (Some rw2'), reuseSymbolsTable symbols3 P4))))"

text \<open>
  The same function with the request objects in a store. A pointer is an index of the
  store, and \<open>rw1\<close> points to an object of it. The composite literal of line 90 allocates
  a new object at the end of the store, the reads through \<open>rw1\<close> read the store, and the
  assignments of lines 141 and 143 update the new object. The function above is the
  content of this one (lemma \<open>store_refines\<close>).
\<close>

definition FromWriteRequestToRW2Request_store ::
  "Env \<Rightarrow> nat option \<Rightarrow> string list \<Rightarrow> nat \<Rightarrow> WriteRequest list \<Rightarrow> pools
     \<Rightarrow> (error + nat option) \<times> WriteRequest list \<times> pools" where
  "FromWriteRequestToRW2Request_store E rw1 common off H P =
     (case rw1 of
        None \<Rightarrow> (Inr None, H, P)
      | Some a \<Rightarrow>
          if length (elems (SymbolsRW2 (H ! a))) > 0 \<or> length (elems (TimeseriesRW2 (H ! a))) > 0
          then (Inl AlreadyRW2Error, H, P)
          else
            (let rw2 = length H;
                 H1 = H @ [\<lparr>Timeseries = [], Metadata = [],
                             Source = Source (H ! a),
                             SkipLabelValidation = SkipLabelValidation (H ! a),
                             SkipLabelCountValidation = SkipLabelCountValidation (H ! a),
                             skipUnmarshalingExemplars = skipUnmarshalingExemplars (H ! a),
                             SymbolsRW2 = make_slice 0, TimeseriesRW2 = make_slice 0\<rparr>];
                 (symbols0, P1) = symbolsTableFromPool P;
                 symbols1 = ConfigureCommonSymbols off common symbols0;
                 expTimeseriesCount = length (Timeseries (H1 ! a)) + length (Metadata (H1 ! a));
                 (pooled, P2) = timeSeriesRW2SliceFromPool P1;
                 rw2Timeseries0 = (if cap pooled < expTimeseriesCount
                                   then make_slice expTimeseriesCount else pooled);
                 (rw2Timeseries1, symbols2, P3) =
                    timeseriesLoop E (Timeseries (H1 ! a)) rw2Timeseries0 symbols1 P2
             in case metadataLoop E (Metadata (H1 ! a)) rw2Timeseries1 symbols2 of
                  None \<Rightarrow> (Inl NilPointerDereference, H1, reuseSymbolsTable symbols2 P3)
                | Some (rw2Timeseries2, symbols3) \<Rightarrow>
                    (let H2 = H1[rw2 := (H1 ! rw2)\<lparr>TimeseriesRW2 := rw2Timeseries2\<rparr>];
                         (syms, P4) = symbolsSliceFromPool E P3;
                         H3 = H2[rw2 := (H2 ! rw2)\<lparr>SymbolsRW2 := SymbolsPrealloc syms symbols3\<rparr>]
                     in (Inr (Some rw2), H3, reuseSymbolsTable symbols3 P4))))"

section \<open>Vocabulary of the properties\<close>

subsection \<open>Reading an output batch\<close>

text \<open>
  Reading a reference sequence as consecutive (name-ref, value-ref) pairs through a symbol
  list: \<open>None\<close> when the sequence has odd length or a reference is not an index of the
  list.
\<close>

fun derefPairs :: "string list \<Rightarrow> SymbolRef list \<Rightarrow> (string \<times> string) list option" where
  "derefPairs syms [] = Some []"
| "derefPairs syms [n] = None"
| "derefPairs syms (n # v # rest) =
     (if n < length syms \<and> v < length syms
      then map_option ((#) (syms ! n, syms ! v)) (derefPairs syms rest)
      else None)"


text \<open>
  A converted exemplar has a reference list of length and capacity twice the label count
  of its exemplar, and the value and timestamp of its exemplar.
\<close>

definition exemplar_conv :: "Exemplar \<Rightarrow> ExemplarRW2 \<Rightarrow> bool" where
  "exemplar_conv ex e2 =
     (length (elems (LabelsRefs_ExemplarRW2 e2)) = 2 * length (Labels_Exemplar ex) \<and>
      cap (LabelsRefs_ExemplarRW2 e2) = 2 * length (Labels_Exemplar ex) \<and>
      Value_ExemplarRW2 e2 = Value_Exemplar ex \<and>
      Timestamp e2 = TimestampMs ex)"




subsection \<open>The state of the symbol table\<close>

text \<open>
  \<open>lookupRef t s\<close> is the reference that the table \<open>t\<close> holds for \<open>s\<close>, if any;
  \<open>extends t t'\<close> says that \<open>t'\<close> is \<open>t\<close> after more calls of \<open>Symbolize\<close>. The
  predicates after them relate an input to its conversion through the references that a
  table holds; they are the invariants of the loops.
\<close>

definition lookupRef :: "SymbolsTable \<Rightarrow> string \<Rightarrow> SymbolRef option" where
  "lookupRef t s =
     (case indexOf s (commonSymbols t) of
        Some i \<Rightarrow> Some (offset t + i)
      | None \<Rightarrow> map_option (\<lambda>j. offset t + length (commonSymbols t) + j) (indexOf s (symbols t)))"


definition extends :: "SymbolsTable \<Rightarrow> SymbolsTable \<Rightarrow> bool" where
  "extends t t' =
     (offset t' = offset t \<and> commonSymbols t' = commonSymbols t \<and>
      (\<exists>zs. symbols t' = symbols t @ zs))"

definition labels_refs :: "SymbolsTable \<Rightarrow> LabelAdapter list \<Rightarrow> SymbolRef list \<Rightarrow> bool" where
  "labels_refs T ls rs =
     (map Some rs = concat (map (\<lambda>l. [lookupRef T (Name l), lookupRef T (Value l)]) ls))"

definition exemplar_refs :: "SymbolsTable \<Rightarrow> Exemplar \<Rightarrow> ExemplarRW2 \<Rightarrow> bool" where
  "exemplar_refs T ex e2 =
     (labels_refs T (Labels_Exemplar ex) (elems (LabelsRefs_ExemplarRW2 e2)) \<and>
      Value_ExemplarRW2 e2 = Value_Exemplar ex \<and> Timestamp e2 = TimestampMs ex)"

definition exemplars_refs ::
  "SymbolsTable \<Rightarrow> Exemplar list option \<Rightarrow> ExemplarRW2 slice option \<Rightarrow> bool" where
  "exemplars_refs T exs res =
     (case exs of
        None \<Rightarrow> res = None
      | Some xs \<Rightarrow> (case res of None \<Rightarrow> False
                   | Some ys \<Rightarrow> list_all2 (exemplar_refs T) xs (elems ys)))"

definition series_conv :: "SymbolsTable \<Rightarrow> TimeSeries \<Rightarrow> TimeSeriesRW2 \<Rightarrow> bool" where
  "series_conv T ts s =
     (labels_refs T (Labels ts) (elems (LabelsRefs s)) \<and>
      Samples_RW2 s = Samples ts \<and> Histograms_RW2 s = Histograms ts \<and>
      exemplars_refs T (Exemplars ts) (Exemplars_RW2 s) \<and>
      Metadata_RW2 s = zero_MetadataRW2 \<and>
      CreatedTimestamp_RW2 s = CreatedTimestamp ts)"

definition synth_conv :: "SymbolsTable \<Rightarrow> MetricMetadata option \<Rightarrow> TimeSeriesRW2 \<Rightarrow> bool" where
  "synth_conv T meta s =
     (case meta of
        None \<Rightarrow> False
      | Some m \<Rightarrow>
          map Some (elems (LabelsRefs s)) =
            [lookupRef T ''__name__'', lookupRef T (MetricFamilyName m)] \<and>
          Type_RW2 (Metadata_RW2 s) = Type m \<and>
          lookupRef T (Help m) = Some (HelpRef (Metadata_RW2 s)) \<and>
          lookupRef T (Unit m) = Some (UnitRef (Metadata_RW2 s)) \<and>
          Samples_RW2 s = [] \<and> Histograms_RW2 s = [] \<and> Exemplars_RW2 s = None \<and>
          CreatedTimestamp_RW2 s = 0)"

subsection \<open>The state of the pools\<close>

text \<open>
  Every buffer in a pool has length 0: \<open>New\<close> makes such buffers and every \<open>Put\<close> of
  the package stores \<open>s[:0]\<close>. The lemmas \<open>pools_inv_*\<close> below show that the empty
  pools satisfy this and that every function of the package keeps it.
\<close>

definition pools_inv :: "pools \<Rightarrow> bool" where
  "pools_inv P =
     ((\<forall>s \<in> set (preallocTimeseriesRW2SlicePool P). elems s = []) \<and>
      (\<forall>s \<in> set (preallocLabelsRefsSlicePool P). elems s = []) \<and>
      (\<forall>s \<in> set (symbolsSlicePool P). elems s = []))"

text \<open>
  The \<open>LabelsRefs\<close> buffers of a list of series that the label-reference pool keeps
  (capacity from 1 to 200), resliced to length 0, in the order of the series.
\<close>

definition retainedLabelsRefs :: "TimeSeriesRW2 list \<Rightarrow> SymbolRef slice list" where
  "retainedLabelsRefs es =
     map (\<lambda>e. \<lparr>elems = [], cap = cap (LabelsRefs e)\<rparr>)
       (filter (\<lambda>e. 0 < cap (LabelsRefs e) \<and> cap (LabelsRefs e) \<le> 200) es)"

text \<open>
  The capacity of a reference buffer of capacity \<open>c\<close> and length \<open>n\<close> after \<open>k\<close>
  appends of two references.
\<close>

fun capAfterPairs :: "Env \<Rightarrow> nat \<Rightarrow> nat \<Rightarrow> nat \<Rightarrow> nat" where
  "capAfterPairs E c n 0 = c"
| "capAfterPairs E c n (Suc k) =
     capAfterPairs E (if n + 2 \<le> c then c else max (n + 2) (growslice E c (n + 2))) (n + 2) k"

subsection \<open>Concrete inputs\<close>

definition example_Env :: Env where
  "example_Env = \<lparr>growslice = (\<lambda>c n. 2 * n), minPreallocatedSymbols = 100,
                   maxPreallocatedSymbols = 100000\<rparr>"

definition empty_pools :: pools where
  "empty_pools = \<lparr>preallocTimeseriesRW2SlicePool = [], preallocLabelsRefsSlicePool = [],
                   symbolsTablePool = 0, symbolsSlicePool = []\<rparr>"

definition example_exemplar :: Exemplar where
  "example_exemplar =
     \<lparr>Labels_Exemplar = [\<lparr>Name = ''trace_id'', Value = ''abc''\<rparr>],
      Value_Exemplar = 7, TimestampMs = 1000\<rparr>"

definition example_request :: WriteRequest where
  "example_request =
     \<lparr>Timeseries =
        [\<lparr>Labels = [\<lparr>Name = ''__name__'', Value = ''foo''\<rparr>, \<lparr>Name = ''job'', Value = ''a''\<rparr>],
          Samples = [], Histograms = [], Exemplars = Some [example_exemplar],
          CreatedTimestamp = 5\<rparr>],
      Metadata = [Some \<lparr>Type = 1, MetricFamilyName = ''foo'', Help = ''total'', Unit = []\<rparr>],
      Source = 1, SkipLabelValidation = True, SkipLabelCountValidation = False,
      skipUnmarshalingExemplars = True,
      SymbolsRW2 = make_slice 0, TimeseriesRW2 = make_slice 0\<rparr>"

definition example_converted :: WriteRequest where
  "example_converted = example_request\<lparr>SymbolsRW2 := \<lparr>elems = [''__name__''], cap = 1\<rparr>\<rparr>"

definition example_nil_metadata :: WriteRequest where
  "example_nil_metadata = example_request\<lparr>Metadata := [None]\<rparr>"

definition example_series_buffer :: "TimeSeriesRW2 slice" where
  "example_series_buffer =
     \<lparr>elems = [zero_TimeSeriesRW2\<lparr>LabelsRefs := \<lparr>elems = [1, 2], cap = 20\<rparr>\<rparr>,
               zero_TimeSeriesRW2\<lparr>LabelsRefs := \<lparr>elems = [1, 3], cap = 2\<rparr>\<rparr>,
               zero_TimeSeriesRW2\<lparr>LabelsRefs := \<lparr>elems = [4], cap = 300\<rparr>\<rparr>],
      cap = 100\<rparr>"

definition example_wide_series :: TimeSeries where
  "example_wide_series =
     \<lparr>Labels = map (\<lambda>c. \<lparr>Name = [c], Value = [c]\<rparr>) ''abcdefghijk'',
      Samples = [], Histograms = [], Exemplars = None, CreatedTimestamp = 0\<rparr>"

definition example_wide_request :: WriteRequest where
  "example_wide_request =
     \<lparr>Timeseries = [example_wide_series], Metadata = [],
      Source = 0, SkipLabelValidation = False, SkipLabelCountValidation = False,
      skipUnmarshalingExemplars = False,
      SymbolsRW2 = make_slice 0, TimeseriesRW2 = make_slice 0\<rparr>"



section \<open>Lemmas\<close>

subsection \<open>Slices and the label loop\<close>

lemma elems_append_slice [simp]: "elems (append_slice E s xs) = elems s @ xs"
  by (simp add: append_slice_def Let_def)

lemma cap_append_slice_fits:
  "length (elems s) + length xs \<le> cap s \<Longrightarrow> cap (append_slice E s xs) = cap s"
  by (simp add: append_slice_def Let_def)

lemma wf_append_slice: "wf_slice (append_slice E s xs)"
  by (simp add: append_slice_def Let_def wf_slice_def)

lemma symbolizeLabels_length:
  "symbolizeLabels E symf ls refs t = (refs', t') \<Longrightarrow>
   length (elems refs') = length (elems refs) + 2 * length ls"
  by (induction ls arbitrary: refs t) (auto split: prod.splits)

lemma symbolizeLabels_cap:
  "symbolizeLabels E symf ls refs t = (refs', t') \<Longrightarrow>
   length (elems refs) + 2 * length ls \<le> cap refs \<Longrightarrow> cap refs' = cap refs"
proof (induction ls arbitrary: refs t)
  case Nil
  then show ?case by simp
next
  case (Cons l ls)
  obtain a t1 where a: "symf (Name l) t = (a, t1)" by (cases "symf (Name l) t")
  obtain b t2 where b: "symf (Value l) t1 = (b, t2)" by (cases "symf (Value l) t1")
  let ?r = "append_slice E refs [a, b]"
  from Cons.prems(1) a b have rec: "symbolizeLabels E symf ls ?r t2 = (refs', t')" by simp
  from Cons.prems(2) have c: "cap ?r = cap refs" by (simp add: cap_append_slice_fits)
  from Cons.prems(2) c have "length (elems ?r) + 2 * length ls \<le> cap ?r" by simp
  from Cons.IH [OF rec this] c show ?case by simp
qed

lemma symbolizeLabels_capAfterPairs:
  "symbolizeLabels E symf ls refs t = (refs', t') \<Longrightarrow>
   cap refs' = capAfterPairs E (cap refs) (length (elems refs)) (length ls)"
proof (induction ls arbitrary: refs t)
  case Nil
  then show ?case by simp
next
  case (Cons l ls)
  obtain a t1 where a: "symf (Name l) t = (a, t1)" by (cases "symf (Name l) t")
  obtain b t2 where b: "symf (Value l) t1 = (b, t2)" by (cases "symf (Value l) t1")
  let ?r = "append_slice E refs [a, b]"
  from Cons.prems a b have rec: "symbolizeLabels E symf ls ?r t2 = (refs', t')" by simp
  have c: "cap ?r = (if length (elems refs) + 2 \<le> cap refs then cap refs
                     else max (length (elems refs) + 2)
                            (growslice E (cap refs) (length (elems refs) + 2)))"
    by (simp add: append_slice_def Let_def)
  from Cons.IH [OF rec] show ?case by (simp add: c)
qed

lemma capAfterPairs_example: "capAfterPairs example_Env 20 0 11 = 44"
proof -
  have e: "(11::nat) = Suc (Suc (Suc (Suc (Suc (Suc (Suc (Suc (Suc (Suc (Suc 0))))))))))"
    by simp
  show ?thesis unfolding e by (simp add: example_Env_def)
qed

lemma exemplarsLoop_shape:
  "exemplarsLoop E symf exs result t = (res, t') \<Longrightarrow>
   \<exists>new. elems res = elems result @ new \<and> list_all2 exemplar_conv exs new"
proof (induction exs arbitrary: result t)
  case Nil
  then show ?case by simp
next
  case (Cons ex exs)
  let ?m = "make_slice (length (Labels_Exemplar ex) * 2) :: SymbolRef slice"
  obtain refs t1 where r: "symbolizeLabels E symf (Labels_Exemplar ex) ?m t = (refs, t1)"
    by (cases "symbolizeLabels E symf (Labels_Exemplar ex) ?m t")
  let ?e = "\<lparr>LabelsRefs_ExemplarRW2 = refs, Value_ExemplarRW2 = Value_Exemplar ex,
             Timestamp = TimestampMs ex\<rparr>"
  from Cons.prems r have rec: "exemplarsLoop E symf exs (append_slice E result [?e]) t1 = (res, t')"
    by simp
  from Cons.IH [OF rec] obtain new where
    n: "elems res = elems (append_slice E result [?e]) @ new" "list_all2 exemplar_conv exs new"
    by blast
  have "exemplar_conv ex ?e"
    using symbolizeLabels_length [OF r] symbolizeLabels_cap [OF r]
    by (simp add: exemplar_conv_def make_slice_def)
  with n show ?case by auto
qed

subsection \<open>The symbol table\<close>

lemma indexOf_Some: "indexOf s xs = Some i \<Longrightarrow> i < length xs \<and> xs ! i = s"
  by (induction xs arbitrary: i) (auto split: if_splits)

lemma indexOf_None: "indexOf s xs = None \<longleftrightarrow> s \<notin> set xs"
  by (induction xs) auto

lemma indexOf_append_Some: "indexOf s xs = Some i \<Longrightarrow> indexOf s (xs @ ys) = Some i"
  by (induction xs arbitrary: i) (auto split: if_splits)

lemma indexOf_snoc_new: "indexOf s xs = None \<Longrightarrow> indexOf s (xs @ [s]) = Some (length xs)"
  by (induction xs) (auto split: if_splits)

lemma extends_refl: "extends t t"
  by (simp add: extends_def)

lemma extends_trans: "extends t t1 \<Longrightarrow> extends t1 t2 \<Longrightarrow> extends t t2"
  by (auto simp: extends_def)

lemma extends_symbols: "extends t t' \<Longrightarrow> \<exists>zs. symbols t' = symbols t @ zs"
  by (simp add: extends_def)

lemma Symbolize_extends: "Symbolize s t = (r, t') \<Longrightarrow> extends t t'"
  by (auto simp: Symbolize_def extends_def split: option.splits)

lemma Symbolize_lookupRef: "Symbolize s t = (r, t') \<Longrightarrow> lookupRef t' s = Some r"
  by (auto simp: Symbolize_def lookupRef_def indexOf_snoc_new split: option.splits)

lemma lookupRef_mono:
  assumes "extends t t'" "lookupRef t s = Some r"
  shows "lookupRef t' s = Some r"
proof -
  from extends_symbols [OF assms(1)] obtain zs where zs: "symbols t' = symbols t @ zs" ..
  from assms(1) have eq: "offset t' = offset t" "commonSymbols t' = commonSymbols t"
    by (simp_all add: extends_def)
  show ?thesis
  proof (cases "indexOf s (commonSymbols t)")
    case (Some i)
    with assms(2) eq show ?thesis by (simp add: lookupRef_def)
  next
    case None
    with assms(2) obtain j where j: "indexOf s (symbols t) = Some j"
      "r = offset t + length (commonSymbols t) + j"
      by (auto simp: lookupRef_def)
    from j(1) have "indexOf s (symbols t') = Some j"
      by (simp add: zs indexOf_append_Some)
    with None j(2) eq show ?thesis by (simp add: lookupRef_def)
  qed
qed

lemma lookupRef_export:
  assumes "lookupRef t s = Some r"
  shows "r < length (exportSymbols t) \<and> exportSymbols t ! r = s"
proof (cases "indexOf s (commonSymbols t)")
  case (Some i)
  with assms have r: "r = offset t + i" by (simp add: lookupRef_def)
  from indexOf_Some [OF Some] show ?thesis
    by (simp add: r exportSymbols_def nth_append)
next
  case None
  with assms obtain j where j: "indexOf s (symbols t) = Some j"
    "r = offset t + length (commonSymbols t) + j"
    by (auto simp: lookupRef_def)
  from indexOf_Some [OF j(1)] show ?thesis
    by (simp add: j(2) exportSymbols_def nth_append)
qed

subsection \<open>References held by a table\<close>

lemma labels_refs_Nil [simp]: "labels_refs T [] rs \<longleftrightarrow> rs = []"
  by (simp add: labels_refs_def)

lemma labels_refs_Cons:
  "labels_refs T (l # ls) rs \<longleftrightarrow>
   (\<exists>a b rs'. rs = a # b # rs' \<and> lookupRef T (Name l) = Some a \<and>
      lookupRef T (Value l) = Some b \<and> labels_refs T ls rs')"
  by (cases rs; cases "tl rs") (auto simp: labels_refs_def)

lemma labels_refs_mono:
  "extends T T' \<Longrightarrow> labels_refs T ls rs \<Longrightarrow> labels_refs T' ls rs"
proof (induction ls arbitrary: rs)
  case Nil
  then show ?case by simp
next
  case (Cons l ls)
  from Cons.prems(2) obtain a b rs' where
    x: "rs = a # b # rs'" "lookupRef T (Name l) = Some a" "lookupRef T (Value l) = Some b"
       "labels_refs T ls rs'"
    by (auto simp: labels_refs_Cons)
  from Cons.IH [OF Cons.prems(1) x(4)] x lookupRef_mono [OF Cons.prems(1)]
  show ?case by (simp add: labels_refs_Cons)
qed

lemma labels_refs_deref:
  "labels_refs T ls rs \<Longrightarrow>
   length rs = 2 * length ls \<and>
   derefPairs (exportSymbols T) rs = Some (map (\<lambda>l. (Name l, Value l)) ls)"
proof (induction ls arbitrary: rs)
  case Nil
  then show ?case by simp
next
  case (Cons l ls)
  from Cons.prems obtain a b rs' where
    x: "rs = a # b # rs'" "lookupRef T (Name l) = Some a" "lookupRef T (Value l) = Some b"
       "labels_refs T ls rs'"
    by (auto simp: labels_refs_Cons)
  from Cons.IH [OF x(4)] lookupRef_export [OF x(2)] lookupRef_export [OF x(3)]
  show ?case by (simp add: x(1))
qed



lemma exemplar_refs_mono:
  "extends T T' \<Longrightarrow> exemplar_refs T ex e2 \<Longrightarrow> exemplar_refs T' ex e2"
  by (auto simp: exemplar_refs_def intro: labels_refs_mono)

lemma list_all2_exemplar_refs_mono:
  "extends T T' \<Longrightarrow> list_all2 (exemplar_refs T) xs ys \<Longrightarrow> list_all2 (exemplar_refs T') xs ys"
  by (erule list_all2_mono) (rule exemplar_refs_mono)

lemma exemplars_refs_mono:
  "extends T T' \<Longrightarrow> exemplars_refs T exs res \<Longrightarrow> exemplars_refs T' exs res"
  by (auto simp: exemplars_refs_def split: option.splits intro: list_all2_exemplar_refs_mono)



lemma series_conv_mono:
  "extends T T' \<Longrightarrow> series_conv T ts s \<Longrightarrow> series_conv T' ts s"
  by (auto simp: series_conv_def intro: labels_refs_mono exemplars_refs_mono)

lemma list_all2_series_conv_mono:
  "extends T T' \<Longrightarrow> list_all2 (series_conv T) xs ys \<Longrightarrow> list_all2 (series_conv T') xs ys"
  by (erule list_all2_mono) (rule series_conv_mono)



lemma synth_conv_mono:
  "extends T T' \<Longrightarrow> synth_conv T m s \<Longrightarrow> synth_conv T' m s"
proof (cases m)
  case None
  assume "synth_conv T m s"
  with None show ?thesis by (simp add: synth_conv_def)
next
  case (Some mm)
  assume e: "extends T T'" and c: "synth_conv T m s"
  from c Some obtain a b where
    ab: "elems (LabelsRefs s) = [a, b]" "lookupRef T ''__name__'' = Some a"
        "lookupRef T (MetricFamilyName mm) = Some b"
    by (cases "elems (LabelsRefs s)"; cases "tl (elems (LabelsRefs s))")
       (auto simp: synth_conv_def)
  from c Some ab lookupRef_mono [OF e] show ?thesis
    by (simp add: synth_conv_def)
qed

lemma list_all2_synth_conv_mono:
  "extends T T' \<Longrightarrow> list_all2 (synth_conv T) xs ys \<Longrightarrow> list_all2 (synth_conv T') xs ys"
  by (erule list_all2_mono) (rule synth_conv_mono)

lemma synth_conv_unfold:
  assumes "synth_conv T meta s"
  shows "\<exists>m a b. meta = Some m \<and> elems (LabelsRefs s) = [a, b] \<and>
           lookupRef T ''__name__'' = Some a \<and> lookupRef T (MetricFamilyName m) = Some b \<and>
           Type_RW2 (Metadata_RW2 s) = Type m \<and>
           lookupRef T (Help m) = Some (HelpRef (Metadata_RW2 s)) \<and>
           lookupRef T (Unit m) = Some (UnitRef (Metadata_RW2 s)) \<and>
           Samples_RW2 s = [] \<and> Histograms_RW2 s = [] \<and> Exemplars_RW2 s = None \<and>
           CreatedTimestamp_RW2 s = 0"
proof -
  from assms obtain m where m: "meta = Some m" by (cases meta) (auto simp: synth_conv_def)
  from assms m obtain a b where
    ab: "elems (LabelsRefs s) = [a, b]" "lookupRef T ''__name__'' = Some a"
        "lookupRef T (MetricFamilyName m) = Some b"
    by (cases "elems (LabelsRefs s)"; cases "tl (elems (LabelsRefs s))")
       (auto simp: synth_conv_def)
  from assms m ab show ?thesis by (simp add: synth_conv_def)
qed



subsection \<open>The loops of the converters\<close>

lemma symbolizeLabels_Symbolize:
  "symbolizeLabels E Symbolize ls refs t = (refs', t') \<Longrightarrow>
   extends t t' \<and> (\<exists>new. elems refs' = elems refs @ new \<and> labels_refs t' ls new)"
proof (induction ls arbitrary: refs t)
  case Nil
  then show ?case by (simp add: extends_refl)
next
  case (Cons l ls)
  obtain a t1 where a: "Symbolize (Name l) t = (a, t1)" by (cases "Symbolize (Name l) t")
  obtain b t2 where b: "Symbolize (Value l) t1 = (b, t2)" by (cases "Symbolize (Value l) t1")
  let ?r = "append_slice E refs [a, b]"
  from Cons.prems a b have rec: "symbolizeLabels E Symbolize ls ?r t2 = (refs', t')" by simp
  from Cons.IH [OF rec] obtain new where
    n: "extends t2 t'" "elems refs' = elems ?r @ new" "labels_refs t' ls new"
    by blast
  have e1: "extends t1 t'" using Symbolize_extends [OF b] n(1) by (rule extends_trans)
  have e0: "extends t t'" using Symbolize_extends [OF a] e1 by (rule extends_trans)
  have la: "lookupRef t' (Name l) = Some a"
    using e1 Symbolize_lookupRef [OF a] by (rule lookupRef_mono)
  have lb: "lookupRef t' (Value l) = Some b"
    using n(1) Symbolize_lookupRef [OF b] by (rule lookupRef_mono)
  have "labels_refs t' (l # ls) (a # b # new)"
    using la lb n(3) by (simp add: labels_refs_Cons)
  moreover have "elems refs' = elems refs @ (a # b # new)" using n(2) by simp
  ultimately show ?case using e0 by blast
qed

lemma exemplarsLoop_Symbolize:
  "exemplarsLoop E Symbolize exs result t = (res, t') \<Longrightarrow>
   extends t t' \<and> (\<exists>new. elems res = elems result @ new \<and> list_all2 (exemplar_refs t') exs new)"
proof (induction exs arbitrary: result t)
  case Nil
  then show ?case by (simp add: extends_refl)
next
  case (Cons ex exs)
  let ?m = "make_slice (length (Labels_Exemplar ex) * 2) :: SymbolRef slice"
  obtain refs t1 where r: "symbolizeLabels E Symbolize (Labels_Exemplar ex) ?m t = (refs, t1)"
    by (cases "symbolizeLabels E Symbolize (Labels_Exemplar ex) ?m t")
  let ?e = "\<lparr>LabelsRefs_ExemplarRW2 = refs, Value_ExemplarRW2 = Value_Exemplar ex,
             Timestamp = TimestampMs ex\<rparr>"
  from Cons.prems r
  have rec: "exemplarsLoop E Symbolize exs (append_slice E result [?e]) t1 = (res, t')"
    by simp
  from Cons.IH [OF rec] obtain new where
    n: "extends t1 t'" "elems res = elems (append_slice E result [?e]) @ new"
       "list_all2 (exemplar_refs t') exs new"
    by blast
  from symbolizeLabels_Symbolize [OF r]
  have s: "extends t t1" "labels_refs t1 (Labels_Exemplar ex) (elems refs)"
    by (auto simp: make_slice_def)
  have "exemplar_refs t' ex ?e"
    using labels_refs_mono [OF n(1) s(2)] by (simp add: exemplar_refs_def)
  with n(3) have "list_all2 (exemplar_refs t') (ex # exs) (?e # new)" by simp
  moreover have "elems res = elems result @ (?e # new)" using n(2) by simp
  moreover have "extends t t'" using s(1) n(1) by (rule extends_trans)
  ultimately show ?case by blast
qed

lemma FromExemplarsToExemplarsRW2_Symbolize:
  "FromExemplarsToExemplarsRW2 E Symbolize exs t = (res, t') \<Longrightarrow>
   extends t t' \<and> exemplars_refs t' exs res"
proof (cases exs)
  case None
  assume "FromExemplarsToExemplarsRW2 E Symbolize exs t = (res, t')"
  with None show ?thesis
    by (auto simp: FromExemplarsToExemplarsRW2_def exemplars_refs_def extends_refl)
next
  case (Some xs)
  assume a: "FromExemplarsToExemplarsRW2 E Symbolize exs t = (res, t')"
  obtain r t1 where l: "exemplarsLoop E Symbolize xs (make_slice (length xs)) t = (r, t1)"
    by (cases "exemplarsLoop E Symbolize xs (make_slice (length xs)) t")
  from a Some l have eq: "res = Some r" "t' = t1"
    by (simp_all add: FromExemplarsToExemplarsRW2_def)
  from exemplarsLoop_Symbolize [OF l] show ?thesis
    by (auto simp: eq Some exemplars_refs_def make_slice_def)
qed

subsection \<open>Acquiring from the pools\<close>

lemma pools_inv_empty: "pools_inv empty_pools"
  by (simp add: pools_inv_def empty_pools_def)

lemma labelsRefsSliceFromPool_inv:
  "labelsRefsSliceFromPool P = (s, P') \<Longrightarrow> pools_inv P \<Longrightarrow> elems s = [] \<and> pools_inv P'"
  by (auto simp: labelsRefsSliceFromPool_def pools_inv_def make_slice_def split: list.splits)

lemma acquireLabelsRefs_inv:
  "acquireLabelsRefs n P = (s, P') \<Longrightarrow> pools_inv P \<Longrightarrow> elems s = [] \<and> pools_inv P'"
proof -
  assume a: "acquireLabelsRefs n P = (s, P')" and i: "pools_inv P"
  obtain r P1 where g: "labelsRefsSliceFromPool P = (r, P1)"
    by (cases "labelsRefsSliceFromPool P")
  from labelsRefsSliceFromPool_inv [OF g i] a g show ?thesis
    by (auto simp: acquireLabelsRefs_def make_slice_def split: if_splits)
qed

lemma timeSeriesRW2SliceFromPool_inv:
  "timeSeriesRW2SliceFromPool P = (s, P') \<Longrightarrow> pools_inv P \<Longrightarrow> elems s = [] \<and> pools_inv P'"
  by (auto simp: timeSeriesRW2SliceFromPool_def pools_inv_def make_slice_def split: list.splits)

lemma symbolsTableFromPool_inv:
  "symbolsTableFromPool P = (t, P') \<Longrightarrow> pools_inv P \<Longrightarrow> t = newSymbolsTable \<and> pools_inv P'"
  by (auto simp: symbolsTableFromPool_def pools_inv_def split: if_splits)

lemma symbolsSliceFromPool_inv:
  "symbolsSliceFromPool E P = (s, P') \<Longrightarrow> pools_inv P \<Longrightarrow> pools_inv P'"
  by (auto simp: symbolsSliceFromPool_def pools_inv_def split: list.splits)

lemma reuseSymbolsTable_inv: "pools_inv P \<Longrightarrow> pools_inv (reuseSymbolsTable t P)"
  by (simp add: reuseSymbolsTable_def pools_inv_def)

subsection \<open>The loops of the conversion\<close>

lemma timeseriesLoop_conv:
  "timeseriesLoop E tss buf t P = (buf', t', P') \<Longrightarrow> pools_inv P \<Longrightarrow>
   extends t t' \<and> pools_inv P' \<and>
   (\<exists>new. elems buf' = elems buf @ new \<and> list_all2 (series_conv t') tss new)"
proof (induction tss arbitrary: buf t P)
  case Nil
  then show ?case by (simp add: extends_refl)
next
  case (Cons ts rest)
  obtain refs0 P1 where q: "acquireLabelsRefs (length (Labels ts) * stringsPerLabel) P = (refs0, P1)"
    by (cases "acquireLabelsRefs (length (Labels ts) * stringsPerLabel) P")
  obtain refs t1 where r: "symbolizeLabels E Symbolize (Labels ts) refs0 t = (refs, t1)"
    by (cases "symbolizeLabels E Symbolize (Labels ts) refs0 t")
  obtain exs t2 where x: "FromExemplarsToExemplarsRW2 E Symbolize (Exemplars ts) t1 = (exs, t2)"
    by (cases "FromExemplarsToExemplarsRW2 E Symbolize (Exemplars ts) t1")
  let ?s = "\<lparr>LabelsRefs = refs, Samples_RW2 = Samples ts, Histograms_RW2 = Histograms ts,
             Exemplars_RW2 = exs, Metadata_RW2 = zero_MetadataRW2,
             CreatedTimestamp_RW2 = CreatedTimestamp ts\<rparr>"
  from Cons.prems(1) q r x
  have rec: "timeseriesLoop E rest (append_slice E buf [?s]) t2 P1 = (buf', t', P')"
    by simp
  from acquireLabelsRefs_inv [OF q Cons.prems(2)] have q': "elems refs0 = []" "pools_inv P1"
    by simp_all
  from Cons.IH [OF rec q'(2)] obtain new where
    n: "extends t2 t'" "pools_inv P'" "elems buf' = elems (append_slice E buf [?s]) @ new"
       "list_all2 (series_conv t') rest new"
    by blast
  from symbolizeLabels_Symbolize [OF r] q'(1)
  have s: "extends t t1" "labels_refs t1 (Labels ts) (elems refs)" by auto
  from FromExemplarsToExemplarsRW2_Symbolize [OF x]
  have e: "extends t1 t2" "exemplars_refs t2 (Exemplars ts) exs" by auto
  have "series_conv t2 ts ?s"
    using labels_refs_mono [OF e(1) s(2)] e(2) by (simp add: series_conv_def)
  then have "series_conv t' ts ?s" using n(1) series_conv_mono by blast
  with n(4) have "list_all2 (series_conv t') (ts # rest) (?s # new)" by simp
  moreover have "elems buf' = elems buf @ (?s # new)" using n(3) by simp
  moreover have "extends t t'"
    using s(1) e(1) n(1) extends_trans by blast
  ultimately show ?case using n(2) by blast
qed

lemma metadataLoop_None: "metadataLoop E mds buf t = None \<longleftrightarrow> None \<in> set mds"
  by (induction mds arbitrary: buf t) (auto split: prod.splits option.splits)

lemma metadataLoop_Some:
  "None \<notin> set mds \<Longrightarrow> \<exists>buf' t'. metadataLoop E mds buf t = Some (buf', t')"
  using metadataLoop_None [of E mds buf t] by (cases "metadataLoop E mds buf t") auto

lemma metadataLoop_conv:
  "metadataLoop E mds buf t = Some (buf', t') \<Longrightarrow>
   extends t t' \<and> (\<exists>new. elems buf' = elems buf @ new \<and> list_all2 (synth_conv t') mds new)"
proof (induction mds arbitrary: buf t)
  case Nil
  then show ?case by (simp add: extends_refl)
next
  case (Cons meta rest)
  obtain n t1 where a: "Symbolize ''__name__'' t = (n, t1)" by (cases "Symbolize ''__name__'' t")
  from Cons.prems a obtain m where m: "meta = Some m" by (cases meta) auto
  obtain f t2 where b: "Symbolize (MetricFamilyName m) t1 = (f, t2)"
    by (cases "Symbolize (MetricFamilyName m) t1")
  obtain h t3 where c: "Symbolize (Help m) t2 = (h, t3)" by (cases "Symbolize (Help m) t2")
  obtain u t4 where d: "Symbolize (Unit m) t3 = (u, t4)" by (cases "Symbolize (Unit m) t3")
  let ?s = "zero_TimeSeriesRW2\<lparr>LabelsRefs := \<lparr>elems = [n, f], cap = 2\<rparr>,
              Metadata_RW2 := \<lparr>Type_RW2 = Type m, HelpRef = h, UnitRef = u\<rparr>\<rparr>"
  from Cons.prems a m b c d
  have rec: "metadataLoop E rest (append_slice E buf [?s]) t4 = Some (buf', t')"
    by (simp add: FromMetricMetadataToMetadataRW2_def)
  from Cons.IH [OF rec] obtain new where
    n: "extends t4 t'" "elems buf' = elems (append_slice E buf [?s]) @ new"
       "list_all2 (synth_conv t') rest new"
    by blast
  have e34: "extends t3 t4" by (rule Symbolize_extends [OF d])
  have e23: "extends t2 t3" by (rule Symbolize_extends [OF c])
  have e12: "extends t1 t2" by (rule Symbolize_extends [OF b])
  have e01: "extends t t1" by (rule Symbolize_extends [OF a])
  have e24: "extends t2 t4" using e23 e34 by (rule extends_trans)
  have e14: "extends t1 t4" using e12 e24 by (rule extends_trans)
  have l: "lookupRef t4 ''__name__'' = Some n" "lookupRef t4 (MetricFamilyName m) = Some f"
    "lookupRef t4 (Help m) = Some h" "lookupRef t4 (Unit m) = Some u"
    using lookupRef_mono [OF e14 Symbolize_lookupRef [OF a]]
      lookupRef_mono [OF e24 Symbolize_lookupRef [OF b]]
      lookupRef_mono [OF e34 Symbolize_lookupRef [OF c]]
      Symbolize_lookupRef [OF d]
    by simp_all
  have "synth_conv t4 meta ?s"
    using l by (simp add: synth_conv_def m zero_TimeSeriesRW2_def)
  then have "synth_conv t' meta ?s" using n(1) synth_conv_mono by blast
  with n(3) have "list_all2 (synth_conv t') (meta # rest) (?s # new)" by simp
  moreover have "elems buf' = elems buf @ (?s # new)" using n(2) by simp
  moreover have "extends t t'"
    using e01 e14 n(1) extends_trans by blast
  ultimately show ?case by blast
qed

subsection \<open>The outcomes of the conversion\<close>

lemma conversion_nil:
  "FromWriteRequestToRW2Request E None common off P = (Inr None, P)"
  by (simp add: FromWriteRequestToRW2Request_def)

lemma conversion_already:
  assumes "elems (SymbolsRW2 r) \<noteq> [] \<or> elems (TimeseriesRW2 r) \<noteq> []"
  shows "FromWriteRequestToRW2Request E (Some r) common off P = (Inl AlreadyRW2Error, P)"
  using assms by (simp add: FromWriteRequestToRW2Request_def)

lemma conversion_outcome:
  assumes "elems (SymbolsRW2 r) = []" "elems (TimeseriesRW2 r) = []"
  shows "(None \<in> set (Metadata r) \<longrightarrow>
            fst (FromWriteRequestToRW2Request E (Some r) common off P) = Inl NilPointerDereference) \<and>
         (None \<notin> set (Metadata r) \<longrightarrow>
            (\<exists>out. fst (FromWriteRequestToRW2Request E (Some r) common off P) = Inr (Some out)))"
proof -
  obtain t0 P1 where a: "symbolsTableFromPool P = (t0, P1)" by (cases "symbolsTableFromPool P")
  obtain pooled P2 where b: "timeSeriesRW2SliceFromPool P1 = (pooled, P2)"
    by (cases "timeSeriesRW2SliceFromPool P1")
  let ?n = "length (Timeseries r) + length (Metadata r)"
  let ?buf0 = "if cap pooled < ?n then make_slice ?n else pooled"
  let ?t1 = "ConfigureCommonSymbols off common t0"
  obtain buf1 t2 P3 where c: "timeseriesLoop E (Timeseries r) ?buf0 ?t1 P2 = (buf1, t2, P3)"
    by (cases "timeseriesLoop E (Timeseries r) ?buf0 ?t1 P2")
  obtain syms P4 where f: "symbolsSliceFromPool E P3 = (syms, P4)"
    by (cases "symbolsSliceFromPool E P3")
  show ?thesis
  proof (cases "metadataLoop E (Metadata r) buf1 t2")
    case None
    then have "None \<in> set (Metadata r)" by (simp add: metadataLoop_None)
    moreover have "fst (FromWriteRequestToRW2Request E (Some r) common off P)
                     = Inl NilPointerDereference"
      using assms a b c None by (simp add: FromWriteRequestToRW2Request_def)
    ultimately show ?thesis by simp
  next
    case (Some res)
    obtain buf2 t3 where res: "res = (buf2, t3)" by (cases res)
    from Some have "None \<notin> set (Metadata r)"
      using metadataLoop_None [of E "Metadata r" buf1 t2] by simp
    moreover have "\<exists>out. fst (FromWriteRequestToRW2Request E (Some r) common off P)
                     = Inr (Some out)"
      using assms a b c f Some res by (simp add: FromWriteRequestToRW2Request_def)
    ultimately show ?thesis by simp
  qed
qed

lemma conversion_result:
  assumes "elems (SymbolsRW2 r) = []" "elems (TimeseriesRW2 r) = []"
    "None \<notin> set (Metadata r)" "pools_inv P"
  shows "\<exists>out P' T xs ys.
           FromWriteRequestToRW2Request E (Some r) common off P = (Inr (Some out), P') \<and>
           pools_inv P' \<and>
           elems (SymbolsRW2 out) = exportSymbols T \<and>
           elems (TimeseriesRW2 out) = xs @ ys \<and>
           list_all2 (series_conv T) (Timeseries r) xs \<and>
           list_all2 (synth_conv T) (Metadata r) ys"
proof -
  obtain t0 P1 where a: "symbolsTableFromPool P = (t0, P1)" by (cases "symbolsTableFromPool P")
  from symbolsTableFromPool_inv [OF a assms(4)] have i1: "pools_inv P1" by simp
  obtain pooled P2 where b: "timeSeriesRW2SliceFromPool P1 = (pooled, P2)"
    by (cases "timeSeriesRW2SliceFromPool P1")
  from timeSeriesRW2SliceFromPool_inv [OF b i1] have i2: "elems pooled = []" "pools_inv P2"
    by simp_all
  let ?n = "length (Timeseries r) + length (Metadata r)"
  let ?buf0 = "if cap pooled < ?n then make_slice ?n else pooled"
  let ?t1 = "ConfigureCommonSymbols off common t0"
  have e0: "elems ?buf0 = []" using i2(1) by (simp add: make_slice_def)
  obtain buf1 t2 P3 where c: "timeseriesLoop E (Timeseries r) ?buf0 ?t1 P2 = (buf1, t2, P3)"
    by (cases "timeseriesLoop E (Timeseries r) ?buf0 ?t1 P2")
  from timeseriesLoop_conv [OF c i2(2)] e0 have
    l1: "extends ?t1 t2" "pools_inv P3" "list_all2 (series_conv t2) (Timeseries r) (elems buf1)"
    by auto
  from assms(3) obtain buf2 t3 where d: "metadataLoop E (Metadata r) buf1 t2 = Some (buf2, t3)"
    using metadataLoop_None [of E "Metadata r" buf1 t2] by (cases "metadataLoop E (Metadata r) buf1 t2") auto
  from metadataLoop_conv [OF d] obtain ys where
    l2: "extends t2 t3" "elems buf2 = elems buf1 @ ys" "list_all2 (synth_conv t3) (Metadata r) ys"
    by blast
  obtain syms P4 where f: "symbolsSliceFromPool E P3 = (syms, P4)"
    by (cases "symbolsSliceFromPool E P3")
  have i4: "pools_inv (reuseSymbolsTable t3 P4)"
    using symbolsSliceFromPool_inv [OF f l1(2)] by (rule reuseSymbolsTable_inv)
  have s1: "list_all2 (series_conv t3) (Timeseries r) (elems buf1)"
    using l2(1) l1(3) by (rule list_all2_series_conv_mono)
  let ?out = "\<lparr>Timeseries = [], Metadata = [], Source = Source r,
      SkipLabelValidation = SkipLabelValidation r,
      SkipLabelCountValidation = SkipLabelCountValidation r,
      skipUnmarshalingExemplars = skipUnmarshalingExemplars r,
      SymbolsRW2 = SymbolsPrealloc syms t3, TimeseriesRW2 = buf2\<rparr>"
  have "FromWriteRequestToRW2Request E (Some r) common off P
          = (Inr (Some ?out), reuseSymbolsTable t3 P4)"
    using assms(1,2) a b c d f by (simp add: FromWriteRequestToRW2Request_def)
  moreover have "elems (SymbolsRW2 ?out) = exportSymbols t3" by (simp add: SymbolsPrealloc_def)
  moreover have "elems (TimeseriesRW2 ?out) = elems buf1 @ ys" using l2(2) by simp
  ultimately show ?thesis using i4 s1 l2(3) by blast
qed

lemma pools_inv_conversion:
  assumes "pools_inv P"
  shows "pools_inv (snd (FromWriteRequestToRW2Request E rw1 common off P))"
proof (cases rw1)
  case None
  with assms show ?thesis by (simp add: conversion_nil)
next
  case (Some r)
  show ?thesis
  proof (cases "elems (SymbolsRW2 r) \<noteq> [] \<or> elems (TimeseriesRW2 r) \<noteq> []")
    case True
    from conversion_already [OF True, of E common off P] Some assms show ?thesis by simp
  next
    case False
    then have e: "elems (SymbolsRW2 r) = []" "elems (TimeseriesRW2 r) = []" by simp_all
    obtain t0 P1 where a: "symbolsTableFromPool P = (t0, P1)" by (cases "symbolsTableFromPool P")
    from symbolsTableFromPool_inv [OF a assms] have i1: "pools_inv P1" by simp
    obtain pooled P2 where b: "timeSeriesRW2SliceFromPool P1 = (pooled, P2)"
      by (cases "timeSeriesRW2SliceFromPool P1")
    from timeSeriesRW2SliceFromPool_inv [OF b i1] have i2: "pools_inv P2" by simp
    let ?n = "length (Timeseries r) + length (Metadata r)"
    let ?buf0 = "if cap pooled < ?n then make_slice ?n else pooled"
    let ?t1 = "ConfigureCommonSymbols off common t0"
    obtain buf1 t2 P3 where c: "timeseriesLoop E (Timeseries r) ?buf0 ?t1 P2 = (buf1, t2, P3)"
      by (cases "timeseriesLoop E (Timeseries r) ?buf0 ?t1 P2")
    from timeseriesLoop_conv [OF c i2] have i3: "pools_inv P3" by simp
    obtain syms P4 where f: "symbolsSliceFromPool E P3 = (syms, P4)"
      by (cases "symbolsSliceFromPool E P3")
    from symbolsSliceFromPool_inv [OF f i3] have i4: "pools_inv P4" .
    show ?thesis
    proof (cases "metadataLoop E (Metadata r) buf1 t2")
      case None
      have "snd (FromWriteRequestToRW2Request E (Some r) common off P) = reuseSymbolsTable t2 P3"
        using e a b c None by (simp add: FromWriteRequestToRW2Request_def)
      with Some i3 show ?thesis by (simp add: reuseSymbolsTable_inv)
    next
      case (Some res)
      obtain buf2 t3 where res: "res = (buf2, t3)" by (cases res)
      have "snd (FromWriteRequestToRW2Request E (Some r) common off P) = reuseSymbolsTable t3 P4"
        using e a b c f Some res by (simp add: FromWriteRequestToRW2Request_def)
      with \<open>rw1 = Some r\<close> i4 show ?thesis by (simp add: reuseSymbolsTable_inv)
    qed
  qed
qed

lemma example_request_ok:
  "elems (SymbolsRW2 example_request) = []" "elems (TimeseriesRW2 example_request) = []"
  "None \<notin> set (Metadata example_request)" "pools_inv empty_pools"
  by (simp_all add: example_request_def make_slice_def pools_inv_def empty_pools_def)

lemma conversion_fields:
  assumes "elems (SymbolsRW2 r) = []" "elems (TimeseriesRW2 r) = []"
    "None \<notin> set (Metadata r)"
  shows "\<exists>out P'.
           FromWriteRequestToRW2Request E (Some r) common off P = (Inr (Some out), P') \<and>
           Source out = Source r \<and>
           SkipLabelValidation out = SkipLabelValidation r \<and>
           SkipLabelCountValidation out = SkipLabelCountValidation r \<and>
           skipUnmarshalingExemplars out = skipUnmarshalingExemplars r"
proof -
  obtain t0 P1 where a: "symbolsTableFromPool P = (t0, P1)" by (cases "symbolsTableFromPool P")
  obtain pooled P2 where b: "timeSeriesRW2SliceFromPool P1 = (pooled, P2)"
    by (cases "timeSeriesRW2SliceFromPool P1")
  let ?n = "length (Timeseries r) + length (Metadata r)"
  let ?buf0 = "if cap pooled < ?n then make_slice ?n else pooled"
  let ?t1 = "ConfigureCommonSymbols off common t0"
  obtain buf1 t2 P3 where c: "timeseriesLoop E (Timeseries r) ?buf0 ?t1 P2 = (buf1, t2, P3)"
    by (cases "timeseriesLoop E (Timeseries r) ?buf0 ?t1 P2")
  from metadataLoop_Some [OF assms(3)] obtain buf2 t3 where
    d: "metadataLoop E (Metadata r) buf1 t2 = Some (buf2, t3)" by blast
  obtain syms P4 where f: "symbolsSliceFromPool E P3 = (syms, P4)"
    by (cases "symbolsSliceFromPool E P3")
  show ?thesis
    using assms(1,2) a b c d f by (simp add: FromWriteRequestToRW2Request_def)
qed

lemma store_refines:
  assumes "a < length H"
  shows "FromWriteRequestToRW2Request_store E (Some a) common off H P =
     (case FromWriteRequestToRW2Request E (Some (H ! a)) common off P of
        (Inl AlreadyRW2Error, P') \<Rightarrow> (Inl AlreadyRW2Error, H, P')
      | (Inl NilPointerDereference, P') \<Rightarrow>
          (Inl NilPointerDereference,
           H @ [\<lparr>Timeseries = [], Metadata = [],
                  Source = Source (H ! a),
                  SkipLabelValidation = SkipLabelValidation (H ! a),
                  SkipLabelCountValidation = SkipLabelCountValidation (H ! a),
                  skipUnmarshalingExemplars = skipUnmarshalingExemplars (H ! a),
                  SymbolsRW2 = make_slice 0, TimeseriesRW2 = make_slice 0\<rparr>], P')
      | (Inr None, P') \<Rightarrow> (Inr None, H, P')
      | (Inr (Some out), P') \<Rightarrow> (Inr (Some (length H)), H @ [out], P'))"
proof (cases "elems (SymbolsRW2 (H ! a)) \<noteq> [] \<or> elems (TimeseriesRW2 (H ! a)) \<noteq> []")
  case True
  from conversion_already [OF True, of E common off P] True show ?thesis
    by (simp add: FromWriteRequestToRW2Request_store_def)
next
  case False
  then have e: "elems (SymbolsRW2 (H ! a)) = []" "elems (TimeseriesRW2 (H ! a)) = []" by simp_all
  let ?r = "H ! a"
  let ?new = "\<lparr>Timeseries = [], Metadata = [],
                  Source = Source ?r,
                  SkipLabelValidation = SkipLabelValidation ?r,
                  SkipLabelCountValidation = SkipLabelCountValidation ?r,
                  skipUnmarshalingExemplars = skipUnmarshalingExemplars ?r,
                  SymbolsRW2 = make_slice 0, TimeseriesRW2 = make_slice 0\<rparr>"
  have h1: "(H @ [?new]) ! a = ?r" using assms by (simp add: nth_append)
  obtain t0 P1 where a: "symbolsTableFromPool P = (t0, P1)" by (cases "symbolsTableFromPool P")
  obtain pooled P2 where b: "timeSeriesRW2SliceFromPool P1 = (pooled, P2)"
    by (cases "timeSeriesRW2SliceFromPool P1")
  let ?n = "length (Timeseries ?r) + length (Metadata ?r)"
  let ?buf0 = "if cap pooled < ?n then make_slice ?n else pooled"
  let ?t1 = "ConfigureCommonSymbols off common t0"
  obtain buf1 t2 P3 where c: "timeseriesLoop E (Timeseries ?r) ?buf0 ?t1 P2 = (buf1, t2, P3)"
    by (cases "timeseriesLoop E (Timeseries ?r) ?buf0 ?t1 P2")
  obtain syms P4 where f: "symbolsSliceFromPool E P3 = (syms, P4)"
    by (cases "symbolsSliceFromPool E P3")
  show ?thesis
  proof (cases "metadataLoop E (Metadata ?r) buf1 t2")
    case None
    have 1: "FromWriteRequestToRW2Request E (Some ?r) common off P
               = (Inl NilPointerDereference, reuseSymbolsTable t2 P3)"
      using e a b c None by (simp add: FromWriteRequestToRW2Request_def)
    have 2: "FromWriteRequestToRW2Request_store E (Some a) common off H P
               = (Inl NilPointerDereference, H @ [?new], reuseSymbolsTable t2 P3)"
      using e a b c None h1 by (simp add: FromWriteRequestToRW2Request_store_def Let_def split del: if_split cong: if_cong)
    show ?thesis unfolding 1 2 by simp
  next
    case (Some res)
    obtain buf2 t3 where res: "res = (buf2, t3)" by (cases res)
    let ?out = "?new\<lparr>TimeseriesRW2 := buf2, SymbolsRW2 := SymbolsPrealloc syms t3\<rparr>"
    have 1: "FromWriteRequestToRW2Request E (Some ?r) common off P
               = (Inr (Some ?out), reuseSymbolsTable t3 P4)"
      using e a b c f Some res by (simp add: FromWriteRequestToRW2Request_def)
    have 2: "FromWriteRequestToRW2Request_store E (Some a) common off H P
               = (Inr (Some (length H)), H @ [?out], reuseSymbolsTable t3 P4)"
      using e a b c f Some res h1 by (simp add: FromWriteRequestToRW2Request_store_def Let_def split del: if_split cong: if_cong)
    show ?thesis unfolding 1 2 by simp
  qed
qed

lemma store_frame:
  assumes "a < length H" "c < length H"
  shows "fst (snd (FromWriteRequestToRW2Request_store E (Some a) common off H P)) ! c = H ! c"
proof -
  obtain res P' where r: "FromWriteRequestToRW2Request E (Some (H ! a)) common off P = (res, P')"
    by (cases "FromWriteRequestToRW2Request E (Some (H ! a)) common off P")
  show ?thesis
  proof (cases res)
    case (Inl e)
    with r assms(2) show ?thesis
      by (cases e) (simp_all add: store_refines [OF assms(1)] nth_append)
  next
    case (Inr res')
    with r assms(2) show ?thesis
      by (cases res') (simp_all add: store_refines [OF assms(1)] nth_append)
  qed
qed

subsection \<open>Releasing to the pools\<close>

lemma reuseLabelsRefsSlice_eq:
  "reuseLabelsRefsSlice s P =
     (if 0 < cap s \<and> cap s \<le> 200
      then (s\<lparr>elems := replicate (length (elems s)) 0\<rparr>,
            P\<lparr>preallocLabelsRefsSlicePool :=
                 \<lparr>elems = [], cap = cap s\<rparr> # preallocLabelsRefsSlicePool P\<rparr>)
      else (s, P))"
  by (simp add: reuseLabelsRefsSlice_def maxPreallocatedLabelsRefs_def reslice0_def Let_def
        map_replicate_const)

lemma reuseElements_eq:
  "reuseElements es P =
     (replicate (length es) zero_TimeSeriesRW2,
      P\<lparr>preallocLabelsRefsSlicePool :=
           rev (retainedLabelsRefs es) @ preallocLabelsRefsSlicePool P\<rparr>)"
proof (induction es arbitrary: P)
  case Nil
  then show ?case by (simp add: retainedLabelsRefs_def)
next
  case (Cons e es)
  show ?case
    by (simp add: Cons.IH reuseLabelsRefsSlice_eq retainedLabelsRefs_def)
qed

lemma reuseTimeSeriesRW2Slice_eq:
  "reuseTimeSeriesRW2Slice b P =
     (if 0 < cap b \<and> cap b \<le> 10000
      then (b\<lparr>elems := replicate (length (elems b)) zero_TimeSeriesRW2\<rparr>,
            P\<lparr>preallocLabelsRefsSlicePool :=
                 rev (retainedLabelsRefs (elems b)) @ preallocLabelsRefsSlicePool P,
               preallocTimeseriesRW2SlicePool :=
                 \<lparr>elems = [], cap = cap b\<rparr> # preallocTimeseriesRW2SlicePool P\<rparr>)
      else (b, P))"
  by (simp add: reuseTimeSeriesRW2Slice_def maxPreallocatedTimeseriesRW2_def reslice0_def
        reuseElements_eq)

lemma reuseSymbolsSlice_eq:
  "reuseSymbolsSlice E s P =
     (if 0 < cap s \<and> cap s \<le> maxPreallocatedSymbols E
      then (s\<lparr>elems := replicate (length (elems s)) []\<rparr>,
            P\<lparr>symbolsSlicePool := \<lparr>elems = [], cap = cap s\<rparr> # symbolsSlicePool P\<rparr>)
      else (s, P))"
  by (simp add: reuseSymbolsSlice_def reslice0_def Let_def map_replicate_const)

lemma pools_inv_reuseLabelsRefsSlice:
  "pools_inv P \<Longrightarrow> pools_inv (snd (reuseLabelsRefsSlice s P))"
  by (simp add: reuseLabelsRefsSlice_eq pools_inv_def)

lemma pools_inv_reuseTimeSeriesRW2Slice:
  "pools_inv P \<Longrightarrow> pools_inv (snd (reuseTimeSeriesRW2Slice b P))"
  by (auto simp: reuseTimeSeriesRW2Slice_eq pools_inv_def retainedLabelsRefs_def)

lemma pools_inv_reuseSymbolsSlice:
  "pools_inv P \<Longrightarrow> pools_inv (snd (reuseSymbolsSlice E s P))"
  by (simp add: reuseSymbolsSlice_eq pools_inv_def)

lemma pools_inv_ReuseRW2:
  "pools_inv P \<Longrightarrow> pools_inv (snd (ReuseRW2 E req P))"
proof (cases req)
  case None
  assume "pools_inv P"
  with None show ?thesis by (simp add: ReuseRW2_def)
next
  case (Some r)
  assume i: "pools_inv P"
  obtain s1 P1 where a: "reuseSymbolsSlice E (SymbolsRW2 r) P = (s1, P1)"
    by (cases "reuseSymbolsSlice E (SymbolsRW2 r) P")
  obtain s2 P2 where b: "reuseTimeSeriesRW2Slice (TimeseriesRW2 r) P1 = (s2, P2)"
    by (cases "reuseTimeSeriesRW2Slice (TimeseriesRW2 r) P1")
  from pools_inv_reuseSymbolsSlice [OF i, of E "SymbolsRW2 r"] a have "pools_inv P1" by simp
  from pools_inv_reuseTimeSeriesRW2Slice [OF this, of "TimeseriesRW2 r"] b have "pools_inv P2"
    by simp
  with Some a b show ?thesis by (simp add: ReuseRW2_def)
qed

section \<open>The claims\<close>

text \<open>
  C1. For a batch that is converted (not nil, not already converted, without a nil metadata
  entry), the \<open>i\<close>-th output series is the conversion of the \<open>i\<close>-th input series: its
  \<open>LabelsRefs\<close> has twice as many elements as the series has label pairs, and reading it
  as consecutive (name-ref, value-ref) pairs through the output symbol list gives back the
  label pairs of the series, in their order.
\<close>

theorem labels_round_trip:
  assumes "elems (SymbolsRW2 r) = []" "elems (TimeseriesRW2 r) = []"
    "None \<notin> set (Metadata r)" "pools_inv P"
  shows "\<exists>out P'.
           FromWriteRequestToRW2Request E (Some r) common off P = (Inr (Some out), P') \<and>
           (\<forall>i < length (Timeseries r).
              i < length (elems (TimeseriesRW2 out)) \<and>
              length (elems (LabelsRefs (elems (TimeseriesRW2 out) ! i)))
                = 2 * length (Labels (Timeseries r ! i)) \<and>
              derefPairs (elems (SymbolsRW2 out)) (elems (LabelsRefs (elems (TimeseriesRW2 out) ! i)))
                = Some (map (\<lambda>l. (Name l, Value l)) (Labels (Timeseries r ! i))))"
proof -
  from conversion_result [OF assms, of E common off] obtain out P' T xs ys where
    c: "FromWriteRequestToRW2Request E (Some r) common off P = (Inr (Some out), P')"
       "elems (SymbolsRW2 out) = exportSymbols T"
       "elems (TimeseriesRW2 out) = xs @ ys"
       "list_all2 (series_conv T) (Timeseries r) xs"
    by blast
  have len: "length xs = length (Timeseries r)"
    using c(4) by (simp add: list_all2_lengthD)
  have "i < length (elems (TimeseriesRW2 out)) \<and>
        length (elems (LabelsRefs (elems (TimeseriesRW2 out) ! i)))
          = 2 * length (Labels (Timeseries r ! i)) \<and>
        derefPairs (elems (SymbolsRW2 out)) (elems (LabelsRefs (elems (TimeseriesRW2 out) ! i)))
          = Some (map (\<lambda>l. (Name l, Value l)) (Labels (Timeseries r ! i)))"
    if i: "i < length (Timeseries r)" for i
  proof -
    from c(4) i have "series_conv T (Timeseries r ! i) (xs ! i)"
      by (rule list_all2_nthD)
    then have "labels_refs T (Labels (Timeseries r ! i)) (elems (LabelsRefs (xs ! i)))"
      by (simp add: series_conv_def)
    from labels_refs_deref [OF this] i len show ?thesis
      by (simp add: c(2) c(3) nth_append)
  qed
  with c(1) show ?thesis by blast
qed

theorem labels_round_trip_witness:
  "\<exists>out P'.
     FromWriteRequestToRW2Request example_Env (Some example_request) [''__name__''] 1 empty_pools
       = (Inr (Some out), P') \<and>
     length (elems (LabelsRefs (elems (TimeseriesRW2 out) ! 0))) = 4 \<and>
     derefPairs (elems (SymbolsRW2 out)) (elems (LabelsRefs (elems (TimeseriesRW2 out) ! 0)))
       = Some [(''__name__'', ''foo''), (''job'', ''a'')]"
proof -
  from labels_round_trip [OF example_request_ok, of example_Env "[''__name__'']" 1]
  obtain out P' where
    c: "FromWriteRequestToRW2Request example_Env (Some example_request) [''__name__''] 1
          empty_pools = (Inr (Some out), P')" and
    a: "\<forall>i < length (Timeseries example_request).
          i < length (elems (TimeseriesRW2 out)) \<and>
          length (elems (LabelsRefs (elems (TimeseriesRW2 out) ! i)))
            = 2 * length (Labels (Timeseries example_request ! i)) \<and>
          derefPairs (elems (SymbolsRW2 out)) (elems (LabelsRefs (elems (TimeseriesRW2 out) ! i)))
            = Some (map (\<lambda>l. (Name l, Value l)) (Labels (Timeseries example_request ! i)))"
    by blast
  have "0 < length (Timeseries example_request)" by (simp add: example_request_def)
  with a have
    "length (elems (LabelsRefs (elems (TimeseriesRW2 out) ! 0)))
       = 2 * length (Labels (Timeseries example_request ! 0)) \<and>
     derefPairs (elems (SymbolsRW2 out)) (elems (LabelsRefs (elems (TimeseriesRW2 out) ! 0)))
       = Some (map (\<lambda>l. (Name l, Value l)) (Labels (Timeseries example_request ! 0)))"
    by blast
  then have
    "length (elems (LabelsRefs (elems (TimeseriesRW2 out) ! 0))) = 4 \<and>
     derefPairs (elems (SymbolsRW2 out)) (elems (LabelsRefs (elems (TimeseriesRW2 out) ! 0)))
       = Some [(''__name__'', ''foo''), (''job'', ''a'')]"
    by (simp add: example_request_def)
  with c show ?thesis by blast
qed

text \<open>
  C2. The conversion returns the already-converted error exactly when the batch is not nil
  and its symbol list or its symbol-referenced series are not empty. The test comes before
  every acquisition: on the error the pools are what they were, and no batch is returned.
  A nil batch gives a nil batch, no error, and the pools are what they were.
\<close>

theorem already_converted_error:
  "(fst (FromWriteRequestToRW2Request E rw1 common off P) = Inl AlreadyRW2Error \<longleftrightarrow>
      (\<exists>r. rw1 = Some r \<and> (elems (SymbolsRW2 r) \<noteq> [] \<or> elems (TimeseriesRW2 r) \<noteq> []))) \<and>
   (fst (FromWriteRequestToRW2Request E rw1 common off P) = Inl AlreadyRW2Error \<longrightarrow>
      snd (FromWriteRequestToRW2Request E rw1 common off P) = P) \<and>
   FromWriteRequestToRW2Request E None common off P = (Inr None, P)"
proof (cases rw1)
  case None
  then show ?thesis by (simp add: conversion_nil)
next
  case (Some r)
  show ?thesis
  proof (cases "elems (SymbolsRW2 r) \<noteq> [] \<or> elems (TimeseriesRW2 r) \<noteq> []")
    case True
    from conversion_already [OF True, of E common off P] Some True show ?thesis
      by (simp add: conversion_nil)
  next
    case False
    then have e: "elems (SymbolsRW2 r) = []" "elems (TimeseriesRW2 r) = []" by simp_all
    from conversion_outcome [OF e, of E common off P]
    have "fst (FromWriteRequestToRW2Request E (Some r) common off P) \<noteq> Inl AlreadyRW2Error"
      by (cases "None \<in> set (Metadata r)") auto
    with Some False show ?thesis by (simp add: conversion_nil)
  qed
qed

theorem already_converted_error_witness:
  "FromWriteRequestToRW2Request example_Env (Some example_converted) [] 0 empty_pools
     = (Inl AlreadyRW2Error, empty_pools)"
proof -
  have "elems (SymbolsRW2 example_converted) \<noteq> []"
    by (simp add: example_converted_def)
  with already_converted_error [of example_Env "Some example_converted" "[]" 0 empty_pools]
  show ?thesis by (simp add: prod_eq_iff)
qed

text \<open>
  C3. For a batch that is converted, the output holds the converted series of the input,
  in order, and after them one synthetic series for each metadata entry, in the order of
  the metadata list. The synthetic series of an entry has the two references of the pair
  (\<open>__name__\<close>, metric family name), the type of the entry, the references of its help
  and unit texts, and no samples, histograms, exemplars or created timestamp. Every
  converted real series has the zero-valued metadata block.
\<close>

theorem metadata_folding:
  assumes "elems (SymbolsRW2 r) = []" "elems (TimeseriesRW2 r) = []"
    "None \<notin> set (Metadata r)" "pools_inv P"
  shows "\<exists>out P'.
           FromWriteRequestToRW2Request E (Some r) common off P = (Inr (Some out), P') \<and>
           length (elems (TimeseriesRW2 out)) = length (Timeseries r) + length (Metadata r) \<and>
           (\<forall>i < length (Timeseries r).
              Metadata_RW2 (elems (TimeseriesRW2 out) ! i) = zero_MetadataRW2 \<and>
              Samples_RW2 (elems (TimeseriesRW2 out) ! i) = Samples (Timeseries r ! i) \<and>
              Histograms_RW2 (elems (TimeseriesRW2 out) ! i) = Histograms (Timeseries r ! i) \<and>
              CreatedTimestamp_RW2 (elems (TimeseriesRW2 out) ! i)
                = CreatedTimestamp (Timeseries r ! i)) \<and>
           (\<forall>j < length (Metadata r).
              \<exists>m. Metadata r ! j = Some m \<and>
                derefPairs (elems (SymbolsRW2 out))
                    (elems (LabelsRefs (elems (TimeseriesRW2 out) ! (length (Timeseries r) + j))))
                  = Some [(''__name__'', MetricFamilyName m)] \<and>
                Type_RW2 (Metadata_RW2 (elems (TimeseriesRW2 out) ! (length (Timeseries r) + j)))
                  = Type m \<and>
                HelpRef (Metadata_RW2 (elems (TimeseriesRW2 out) ! (length (Timeseries r) + j)))
                  < length (elems (SymbolsRW2 out)) \<and>
                elems (SymbolsRW2 out)
                    ! HelpRef (Metadata_RW2 (elems (TimeseriesRW2 out) ! (length (Timeseries r) + j)))
                  = Help m \<and>
                UnitRef (Metadata_RW2 (elems (TimeseriesRW2 out) ! (length (Timeseries r) + j)))
                  < length (elems (SymbolsRW2 out)) \<and>
                elems (SymbolsRW2 out)
                    ! UnitRef (Metadata_RW2 (elems (TimeseriesRW2 out) ! (length (Timeseries r) + j)))
                  = Unit m \<and>
                Samples_RW2 (elems (TimeseriesRW2 out) ! (length (Timeseries r) + j)) = [] \<and>
                Histograms_RW2 (elems (TimeseriesRW2 out) ! (length (Timeseries r) + j)) = [] \<and>
                Exemplars_RW2 (elems (TimeseriesRW2 out) ! (length (Timeseries r) + j)) = None \<and>
                CreatedTimestamp_RW2 (elems (TimeseriesRW2 out) ! (length (Timeseries r) + j)) = 0)"
proof -
  from conversion_result [OF assms, of E common off] obtain out P' T xs ys where
    c: "FromWriteRequestToRW2Request E (Some r) common off P = (Inr (Some out), P')"
       "elems (SymbolsRW2 out) = exportSymbols T"
       "elems (TimeseriesRW2 out) = xs @ ys"
       "list_all2 (series_conv T) (Timeseries r) xs"
       "list_all2 (synth_conv T) (Metadata r) ys"
    by blast
  let ?o = "elems (TimeseriesRW2 out)"
  let ?n = "length (Timeseries r)"
  have lx: "length xs = ?n" using c(4) by (simp add: list_all2_lengthD)
  have ly: "length ys = length (Metadata r)" using c(5) by (simp add: list_all2_lengthD)
  have len: "length ?o = ?n + length (Metadata r)" by (simp add: c(3) lx ly)
  have real: "Metadata_RW2 (?o ! i) = zero_MetadataRW2 \<and>
              Samples_RW2 (?o ! i) = Samples (Timeseries r ! i) \<and>
              Histograms_RW2 (?o ! i) = Histograms (Timeseries r ! i) \<and>
              CreatedTimestamp_RW2 (?o ! i) = CreatedTimestamp (Timeseries r ! i)"
    if i: "i < ?n" for i
  proof -
    from c(4) i have "series_conv T (Timeseries r ! i) (xs ! i)" by (rule list_all2_nthD)
    moreover have "?o ! i = xs ! i" using i lx by (simp add: c(3) nth_append)
    ultimately show ?thesis by (simp add: series_conv_def)
  qed
  have synth: "\<exists>m. Metadata r ! j = Some m \<and>
                derefPairs (elems (SymbolsRW2 out)) (elems (LabelsRefs (?o ! (?n + j))))
                  = Some [(''__name__'', MetricFamilyName m)] \<and>
                Type_RW2 (Metadata_RW2 (?o ! (?n + j))) = Type m \<and>
                HelpRef (Metadata_RW2 (?o ! (?n + j))) < length (elems (SymbolsRW2 out)) \<and>
                elems (SymbolsRW2 out) ! HelpRef (Metadata_RW2 (?o ! (?n + j))) = Help m \<and>
                UnitRef (Metadata_RW2 (?o ! (?n + j))) < length (elems (SymbolsRW2 out)) \<and>
                elems (SymbolsRW2 out) ! UnitRef (Metadata_RW2 (?o ! (?n + j))) = Unit m \<and>
                Samples_RW2 (?o ! (?n + j)) = [] \<and>
                Histograms_RW2 (?o ! (?n + j)) = [] \<and>
                Exemplars_RW2 (?o ! (?n + j)) = None \<and>
                CreatedTimestamp_RW2 (?o ! (?n + j)) = 0"
    if j: "j < length (Metadata r)" for j
  proof -
    have eq: "?o ! (?n + j) = ys ! j" using lx by (simp add: c(3) nth_append)
    from c(5) j have "synth_conv T (Metadata r ! j) (ys ! j)" by (rule list_all2_nthD)
    from synth_conv_unfold [OF this] obtain m a b where
      x: "Metadata r ! j = Some m" "elems (LabelsRefs (ys ! j)) = [a, b]"
         "lookupRef T ''__name__'' = Some a" "lookupRef T (MetricFamilyName m) = Some b"
         "Type_RW2 (Metadata_RW2 (ys ! j)) = Type m"
         "lookupRef T (Help m) = Some (HelpRef (Metadata_RW2 (ys ! j)))"
         "lookupRef T (Unit m) = Some (UnitRef (Metadata_RW2 (ys ! j)))"
         "Samples_RW2 (ys ! j) = []" "Histograms_RW2 (ys ! j) = []"
         "Exemplars_RW2 (ys ! j) = None" "CreatedTimestamp_RW2 (ys ! j) = 0"
      by blast
    from lookupRef_export [OF x(3)] lookupRef_export [OF x(4)]
    have d1: "derefPairs (exportSymbols T) [a, b] = Some [(''__name__'', MetricFamilyName m)]"
      by simp
    from x d1 lookupRef_export [OF x(6)] lookupRef_export [OF x(7)]
    show ?thesis by (simp add: eq c(2))
  qed
  from c(1) len real synth show ?thesis by blast
qed

theorem metadata_folding_witness:
  "\<exists>out P'.
     FromWriteRequestToRW2Request example_Env (Some example_request) [''__name__''] 1 empty_pools
       = (Inr (Some out), P') \<and>
     length (elems (TimeseriesRW2 out)) = 2 \<and>
     Metadata_RW2 (elems (TimeseriesRW2 out) ! 0) = zero_MetadataRW2 \<and>
     derefPairs (elems (SymbolsRW2 out)) (elems (LabelsRefs (elems (TimeseriesRW2 out) ! 1)))
       = Some [(''__name__'', ''foo'')] \<and>
     Type_RW2 (Metadata_RW2 (elems (TimeseriesRW2 out) ! 1)) = 1 \<and>
     elems (SymbolsRW2 out) ! HelpRef (Metadata_RW2 (elems (TimeseriesRW2 out) ! 1)) = ''total'' \<and>
     Samples_RW2 (elems (TimeseriesRW2 out) ! 1) = [] \<and>
     Exemplars_RW2 (elems (TimeseriesRW2 out) ! 1) = None"
proof -
  let ?r = example_request
  from metadata_folding [OF example_request_ok, of example_Env "[''__name__'']" 1]
  obtain out P' where
    c: "FromWriteRequestToRW2Request example_Env (Some ?r) [''__name__''] 1 empty_pools
          = (Inr (Some out), P')" and
    l: "length (elems (TimeseriesRW2 out)) = length (Timeseries ?r) + length (Metadata ?r)" and
    a: "\<forall>i < length (Timeseries ?r).
          Metadata_RW2 (elems (TimeseriesRW2 out) ! i) = zero_MetadataRW2 \<and>
          Samples_RW2 (elems (TimeseriesRW2 out) ! i) = Samples (Timeseries ?r ! i) \<and>
          Histograms_RW2 (elems (TimeseriesRW2 out) ! i) = Histograms (Timeseries ?r ! i) \<and>
          CreatedTimestamp_RW2 (elems (TimeseriesRW2 out) ! i)
            = CreatedTimestamp (Timeseries ?r ! i)" and
    b: "\<forall>j < length (Metadata ?r).
          \<exists>m. Metadata ?r ! j = Some m \<and>
            derefPairs (elems (SymbolsRW2 out))
                (elems (LabelsRefs (elems (TimeseriesRW2 out) ! (length (Timeseries ?r) + j))))
              = Some [(''__name__'', MetricFamilyName m)] \<and>
            Type_RW2 (Metadata_RW2 (elems (TimeseriesRW2 out) ! (length (Timeseries ?r) + j)))
              = Type m \<and>
            HelpRef (Metadata_RW2 (elems (TimeseriesRW2 out) ! (length (Timeseries ?r) + j)))
              < length (elems (SymbolsRW2 out)) \<and>
            elems (SymbolsRW2 out)
                ! HelpRef (Metadata_RW2 (elems (TimeseriesRW2 out) ! (length (Timeseries ?r) + j)))
              = Help m \<and>
            UnitRef (Metadata_RW2 (elems (TimeseriesRW2 out) ! (length (Timeseries ?r) + j)))
              < length (elems (SymbolsRW2 out)) \<and>
            elems (SymbolsRW2 out)
                ! UnitRef (Metadata_RW2 (elems (TimeseriesRW2 out) ! (length (Timeseries ?r) + j)))
              = Unit m \<and>
            Samples_RW2 (elems (TimeseriesRW2 out) ! (length (Timeseries ?r) + j)) = [] \<and>
            Histograms_RW2 (elems (TimeseriesRW2 out) ! (length (Timeseries ?r) + j)) = [] \<and>
            Exemplars_RW2 (elems (TimeseriesRW2 out) ! (length (Timeseries ?r) + j)) = None \<and>
            CreatedTimestamp_RW2 (elems (TimeseriesRW2 out) ! (length (Timeseries ?r) + j)) = 0"
    by blast
  have n: "length (Timeseries ?r) = 1" "length (Metadata ?r) = 1"
    "Metadata ?r ! 0 = Some \<lparr>Type = 1, MetricFamilyName = ''foo'', Help = ''total'', Unit = []\<rparr>"
    by (simp_all add: example_request_def)
  from a n(1) have a0: "Metadata_RW2 (elems (TimeseriesRW2 out) ! 0) = zero_MetadataRW2"
    by simp
  from b n have
    "derefPairs (elems (SymbolsRW2 out)) (elems (LabelsRefs (elems (TimeseriesRW2 out) ! 1)))
       = Some [(''__name__'', ''foo'')] \<and>
     Type_RW2 (Metadata_RW2 (elems (TimeseriesRW2 out) ! 1)) = 1 \<and>
     elems (SymbolsRW2 out) ! HelpRef (Metadata_RW2 (elems (TimeseriesRW2 out) ! 1)) = ''total'' \<and>
     Samples_RW2 (elems (TimeseriesRW2 out) ! 1) = [] \<and>
     Exemplars_RW2 (elems (TimeseriesRW2 out) ! 1) = None"
    by simp
  with c l n a0 show ?thesis by simp
qed




text \<open>
  C5. \<open>FromExemplarsToExemplarsRW2\<close> returns nil exactly when the exemplar list is nil; a
  present list of length zero gives a present empty list; otherwise the result holds one
  converted exemplar per input exemplar, in order, each with a reference list made for it
  (length and capacity twice its label count) and with the value and the timestamp of its
  exemplar. This holds for every implementation of the symbolizer interface.
\<close>

theorem FromExemplarsToExemplarsRW2_shape:
  "(fst (FromExemplarsToExemplarsRW2 E symf exemplars t) = None \<longleftrightarrow> exemplars = None) \<and>
   FromExemplarsToExemplarsRW2 E symf (Some []) t = (Some (make_slice 0), t) \<and>
   (\<forall>exs. exemplars = Some exs \<longrightarrow>
      (\<exists>res. fst (FromExemplarsToExemplarsRW2 E symf exemplars t) = Some res \<and>
             list_all2 exemplar_conv exs (elems res)))"
proof (cases exemplars)
  case None
  then show ?thesis by (simp add: FromExemplarsToExemplarsRW2_def)
next
  case (Some exs)
  obtain res t' where l: "exemplarsLoop E symf exs (make_slice (length exs)) t = (res, t')"
    by (cases "exemplarsLoop E symf exs (make_slice (length exs)) t")
  from exemplarsLoop_shape [OF l] have "list_all2 exemplar_conv exs (elems res)"
    by (simp add: make_slice_def)
  with Some l show ?thesis by (simp add: FromExemplarsToExemplarsRW2_def)
qed

theorem FromExemplarsToExemplarsRW2_shape_witness:
  "\<exists>res. fst (FromExemplarsToExemplarsRW2 example_Env Symbolize
                (Some [example_exemplar, example_exemplar]) newSymbolsTable) = Some res \<and>
         list_all2 exemplar_conv [example_exemplar, example_exemplar] (elems res)"
  using FromExemplarsToExemplarsRW2_shape
          [of example_Env Symbolize "Some [example_exemplar, example_exemplar]" newSymbolsTable]
  by simp

text \<open>
  C6 as stated says that release clears every live element of every buffer passed to it.
  A label-reference buffer of capacity 201 with the live element 7 is discarded by the
  guard of line 44, before the loop of lines 48-50: the element is still 7 after the call.
\<close>

theorem release_discard_not_cleared:
  "reuseLabelsRefsSlice \<lparr>elems = [7], cap = 201\<rparr> empty_pools
     = (\<lparr>elems = [7], cap = 201\<rparr>, empty_pools) \<and>
   elems (fst (reuseLabelsRefsSlice \<lparr>elems = [7], cap = 201\<rparr> empty_pools)) \<noteq> [0]"
  by (simp add: reuseLabelsRefsSlice_def maxPreallocatedLabelsRefs_def)

text \<open>
  C6, as the code has it. A release function keeps the buffer exactly when its capacity is
  not zero and not above the maximum of its pool (200 for label references, 10000 for
  converted series). A buffer that is kept has every live element overwritten with the
  zero value and enters its pool with length 0 and its capacity. A buffer that is not kept
  is returned from before the loop: its live elements stay as they are, and the pools stay
  as they are.
\<close>

theorem release_retention:
  "reuseLabelsRefsSlice s P =
     (if 0 < cap s \<and> cap s \<le> 200
      then (s\<lparr>elems := replicate (length (elems s)) 0\<rparr>,
            P\<lparr>preallocLabelsRefsSlicePool :=
                 \<lparr>elems = [], cap = cap s\<rparr> # preallocLabelsRefsSlicePool P\<rparr>)
      else (s, P)) \<and>
   fst (reuseTimeSeriesRW2Slice b P) =
     (if 0 < cap b \<and> cap b \<le> 10000
      then b\<lparr>elems := replicate (length (elems b)) zero_TimeSeriesRW2\<rparr> else b) \<and>
   preallocTimeseriesRW2SlicePool (snd (reuseTimeSeriesRW2Slice b P)) =
     (if 0 < cap b \<and> cap b \<le> 10000
      then \<lparr>elems = [], cap = cap b\<rparr> # preallocTimeseriesRW2SlicePool P
      else preallocTimeseriesRW2SlicePool P) \<and>
   (\<not> (0 < cap b \<and> cap b \<le> 10000) \<longrightarrow> snd (reuseTimeSeriesRW2Slice b P) = P)"
  by (simp add: reuseLabelsRefsSlice_eq reuseTimeSeriesRW2Slice_eq)

theorem release_retention_witness:
  "reuseLabelsRefsSlice \<lparr>elems = [3, 4], cap = 20\<rparr> empty_pools =
     (\<lparr>elems = [0, 0], cap = 20\<rparr>,
      empty_pools\<lparr>preallocLabelsRefsSlicePool := [\<lparr>elems = [], cap = 20\<rparr>]\<rparr>) \<and>
   snd (reuseTimeSeriesRW2Slice (example_series_buffer\<lparr>cap := 10001\<rparr>) empty_pools) = empty_pools"
proof
  from release_retention [of "\<lparr>elems = [3, 4], cap = 20\<rparr>" empty_pools, THEN conjunct1]
  show "reuseLabelsRefsSlice \<lparr>elems = [3, 4], cap = 20\<rparr> empty_pools =
     (\<lparr>elems = [0, 0], cap = 20\<rparr>,
      empty_pools\<lparr>preallocLabelsRefsSlicePool := [\<lparr>elems = [], cap = 20\<rparr>]\<rparr>)"
    by (simp add: empty_pools_def numeral_2_eq_2)
next
  have h: "\<not> (0 < cap (example_series_buffer\<lparr>cap := 10001\<rparr>) \<and>
              cap (example_series_buffer\<lparr>cap := 10001\<rparr>) \<le> 10000)"
    by simp
  from release_retention [of _ empty_pools "example_series_buffer\<lparr>cap := 10001\<rparr>",
         THEN conjunct2, THEN conjunct2, THEN conjunct2] h
  show "snd (reuseTimeSeriesRW2Slice (example_series_buffer\<lparr>cap := 10001\<rparr>) empty_pools)
          = empty_pools"
    by (rule mp)
qed

text \<open>
  C7 at a series of eleven label pairs, with an empty label-reference pool. The series
  needs 22 references. The pool hands out a new buffer of capacity 20; the test of line 112
  compares it with \<open>stringsPerLabel\<close>, so the buffer is kept, the appends start in it, and
  the eleventh append grows it: the series ends with the capacity that \<open>growslice\<close> chose
  (44 here), not with a buffer made for 22 references.
\<close>

theorem labels_buffer_not_presized:
  "length (Labels example_wide_series) * stringsPerLabel = 22 \<and>
   acquireLabelsRefs 22 empty_pools = (\<lparr>elems = [], cap = 20\<rparr>, empty_pools) \<and>
   (\<exists>out P'.
      FromWriteRequestToRW2Request example_Env (Some example_wide_request) [] 0 empty_pools
        = (Inr (Some out), P') \<and>
      length (elems (LabelsRefs (elems (TimeseriesRW2 out) ! 0))) = 22 \<and>
      cap (LabelsRefs (elems (TimeseriesRW2 out) ! 0)) = 44)"
proof (intro conjI)
  show n: "length (Labels example_wide_series) * stringsPerLabel = 22"
    by (simp add: example_wide_series_def stringsPerLabel_def)
  show q: "acquireLabelsRefs 22 empty_pools = (\<lparr>elems = [], cap = 20\<rparr>, empty_pools)"
    by (simp add: acquireLabelsRefs_def labelsRefsSliceFromPool_def empty_pools_def
          make_slice_def minPreallocatedLabelsRefs_def stringsPerLabel_def)
  let ?E = example_Env
  let ?t = "ConfigureCommonSymbols 0 [] newSymbolsTable"
  let ?b = "\<lparr>elems = [], cap = 20\<rparr> :: SymbolRef slice"
  obtain refs t1 where r: "symbolizeLabels ?E Symbolize (Labels example_wide_series) ?b ?t = (refs, t1)"
    by (cases "symbolizeLabels ?E Symbolize (Labels example_wide_series) ?b ?t")
  have l11: "length (Labels example_wide_series) = 11"
    by (simp add: example_wide_series_def)
  from symbolizeLabels_capAfterPairs [OF r] have c: "cap refs = 44"
    by (simp add: l11 capAfterPairs_example)
  from symbolizeLabels_length [OF r] have l: "length (elems refs) = 22"
    by (simp add: l11)
  let ?s = "\<lparr>LabelsRefs = refs, Samples_RW2 = Samples example_wide_series,
             Histograms_RW2 = Histograms example_wide_series, Exemplars_RW2 = None,
             Metadata_RW2 = zero_MetadataRW2,
             CreatedTimestamp_RW2 = CreatedTimestamp example_wide_series\<rparr>"
  have x: "Exemplars example_wide_series = None" by (simp add: example_wide_series_def)
  have loop: "timeseriesLoop ?E [example_wide_series] (make_slice 100) ?t empty_pools
          = (append_slice ?E (make_slice 100) [?s], t1, empty_pools)"
    using n q r x by (simp add: FromExemplarsToExemplarsRW2_def)
  have p: "symbolsTableFromPool empty_pools = (newSymbolsTable, empty_pools)"
    "timeSeriesRW2SliceFromPool empty_pools = (make_slice 100, empty_pools)"
    by (simp_all add: symbolsTableFromPool_def timeSeriesRW2SliceFromPool_def empty_pools_def
          minPreallocatedTimeseriesRW2_def)
  obtain syms P4 where f: "symbolsSliceFromPool ?E empty_pools = (syms, P4)"
    by (cases "symbolsSliceFromPool ?E empty_pools")
  have w: "Timeseries example_wide_request = [example_wide_series]"
    "Metadata example_wide_request = []"
    "elems (SymbolsRW2 example_wide_request) = []"
    "elems (TimeseriesRW2 example_wide_request) = []"
    by (simp_all add: example_wide_request_def make_slice_def)
  have m: "cap (make_slice 100 :: TimeSeriesRW2 slice) = 100" by (simp add: make_slice_def)
  have "fst (FromWriteRequestToRW2Request ?E (Some example_wide_request) [] 0 empty_pools)
          = Inr (Some \<lparr>Timeseries = [], Metadata = [],
               Source = Source example_wide_request,
               SkipLabelValidation = SkipLabelValidation example_wide_request,
               SkipLabelCountValidation = SkipLabelCountValidation example_wide_request,
               skipUnmarshalingExemplars = skipUnmarshalingExemplars example_wide_request,
               SymbolsRW2 = SymbolsPrealloc syms t1,
               TimeseriesRW2 = append_slice ?E (make_slice 100) [?s]\<rparr>)"
    using w p loop f m by (simp add: FromWriteRequestToRW2Request_def)
  moreover have "elems (append_slice ?E (make_slice 100) [?s]) ! 0 = ?s"
    by (simp add: make_slice_def)
  ultimately show "\<exists>out P'.
      FromWriteRequestToRW2Request example_Env (Some example_wide_request) [] 0 empty_pools
        = (Inr (Some out), P') \<and>
      length (elems (LabelsRefs (elems (TimeseriesRW2 out) ! 0))) = 22 \<and>
      cap (LabelsRefs (elems (TimeseriesRW2 out) ! 0)) = 44"
    using c l by (cases "FromWriteRequestToRW2Request example_Env (Some example_wide_request) [] 0 empty_pools") simp
qed

text \<open>
  C8. The request objects are in a store and \<open>rw1\<close> points to one of them. Whatever the
  outcome of the call, every object that the store held before the call, the input batch
  included, is afterwards what it was: the function writes only to the object that line 90
  allocates. For a batch that is converted, the function returns a pointer to that new
  object, which is not the input, and its \<open>Source\<close>, \<open>SkipLabelValidation\<close>,
  \<open>SkipLabelCountValidation\<close> and \<open>skipUnmarshalingExemplars\<close> are those of the input.
\<close>

theorem input_unchanged_fields_copied:
  assumes "a < length H"
  shows "(\<forall>c < length H.
            fst (snd (FromWriteRequestToRW2Request_store E (Some a) common off H P)) ! c = H ! c) \<and>
         FromWriteRequestToRW2Request_store E None common off H P = (Inr None, H, P) \<and>
         (elems (SymbolsRW2 (H ! a)) = [] \<and> elems (TimeseriesRW2 (H ! a)) = [] \<and>
          None \<notin> set (Metadata (H ! a)) \<longrightarrow>
            (\<exists>b H' P'.
               FromWriteRequestToRW2Request_store E (Some a) common off H P
                 = (Inr (Some b), H', P') \<and>
               b \<noteq> a \<and> b < length H' \<and> H' ! a = H ! a \<and>
               Source (H' ! b) = Source (H ! a) \<and>
               SkipLabelValidation (H' ! b) = SkipLabelValidation (H ! a) \<and>
               SkipLabelCountValidation (H' ! b) = SkipLabelCountValidation (H ! a) \<and>
               skipUnmarshalingExemplars (H' ! b) = skipUnmarshalingExemplars (H ! a)))"
proof (intro conjI impI)
  show "\<forall>c < length H.
          fst (snd (FromWriteRequestToRW2Request_store E (Some a) common off H P)) ! c = H ! c"
    using store_frame [OF assms] by blast
  show "FromWriteRequestToRW2Request_store E None common off H P = (Inr None, H, P)"
    by (simp add: FromWriteRequestToRW2Request_store_def)
  assume h: "elems (SymbolsRW2 (H ! a)) = [] \<and> elems (TimeseriesRW2 (H ! a)) = [] \<and>
             None \<notin> set (Metadata (H ! a))"
  then have h': "elems (SymbolsRW2 (H ! a)) = []" "elems (TimeseriesRW2 (H ! a)) = []"
    "None \<notin> set (Metadata (H ! a))" by simp_all
  from conversion_fields [OF h', of E common off P] obtain out P' where
    cv: "FromWriteRequestToRW2Request E (Some (H ! a)) common off P = (Inr (Some out), P')"
       "Source out = Source (H ! a)"
       "SkipLabelValidation out = SkipLabelValidation (H ! a)"
       "SkipLabelCountValidation out = SkipLabelCountValidation (H ! a)"
       "skipUnmarshalingExemplars out = skipUnmarshalingExemplars (H ! a)"
    by blast
  have s: "FromWriteRequestToRW2Request_store E (Some a) common off H P
             = (Inr (Some (length H)), H @ [out], P')"
    by (simp add: store_refines [OF assms] cv(1))
  have "length H \<noteq> a \<and> length H < length (H @ [out]) \<and> (H @ [out]) ! a = H ! a \<and>
        Source ((H @ [out]) ! length H) = Source (H ! a) \<and>
        SkipLabelValidation ((H @ [out]) ! length H) = SkipLabelValidation (H ! a) \<and>
        SkipLabelCountValidation ((H @ [out]) ! length H) = SkipLabelCountValidation (H ! a) \<and>
        skipUnmarshalingExemplars ((H @ [out]) ! length H) = skipUnmarshalingExemplars (H ! a)"
    using assms cv(2-5) by (simp add: nth_append)
  with s show "\<exists>b H' P'.
               FromWriteRequestToRW2Request_store E (Some a) common off H P
                 = (Inr (Some b), H', P') \<and>
               b \<noteq> a \<and> b < length H' \<and> H' ! a = H ! a \<and>
               Source (H' ! b) = Source (H ! a) \<and>
               SkipLabelValidation (H' ! b) = SkipLabelValidation (H ! a) \<and>
               SkipLabelCountValidation (H' ! b) = SkipLabelCountValidation (H ! a) \<and>
               skipUnmarshalingExemplars (H' ! b) = skipUnmarshalingExemplars (H ! a)"
    by blast
qed

theorem input_unchanged_fields_copied_witness:
  "\<exists>b H' P'.
     FromWriteRequestToRW2Request_store example_Env (Some 0) [''__name__''] 1 [example_request]
         empty_pools
       = (Inr (Some b), H', P') \<and>
     b \<noteq> 0 \<and> H' ! 0 = example_request \<and>
     Source (H' ! b) = 1 \<and> SkipLabelValidation (H' ! b) \<and>
     \<not> SkipLabelCountValidation (H' ! b) \<and> skipUnmarshalingExemplars (H' ! b)"
proof -
  let ?H = "[example_request]"
  have a: "0 < length ?H" by simp
  have h: "elems (SymbolsRW2 (?H ! 0)) = [] \<and> elems (TimeseriesRW2 (?H ! 0)) = [] \<and>
           None \<notin> set (Metadata (?H ! 0))"
    using example_request_ok(1-3) by simp
  from input_unchanged_fields_copied
         [OF a, of example_Env "[''__name__'']" 1 empty_pools, THEN conjunct2, THEN conjunct2] h
  have "\<exists>b H' P'.
          FromWriteRequestToRW2Request_store example_Env (Some 0) [''__name__''] 1 ?H empty_pools
            = (Inr (Some b), H', P') \<and>
          b \<noteq> 0 \<and> b < length H' \<and> H' ! 0 = ?H ! 0 \<and>
          Source (H' ! b) = Source (?H ! 0) \<and>
          SkipLabelValidation (H' ! b) = SkipLabelValidation (?H ! 0) \<and>
          SkipLabelCountValidation (H' ! b) = SkipLabelCountValidation (?H ! 0) \<and>
          skipUnmarshalingExemplars (H' ! b) = skipUnmarshalingExemplars (?H ! 0)"
    by (rule mp)
  then obtain b H' P' where
    c: "FromWriteRequestToRW2Request_store example_Env (Some 0) [''__name__''] 1 ?H empty_pools
          = (Inr (Some b), H', P')" and
    f: "b \<noteq> 0" "H' ! 0 = ?H ! 0" "Source (H' ! b) = Source (?H ! 0)"
       "SkipLabelValidation (H' ! b) = SkipLabelValidation (?H ! 0)"
       "SkipLabelCountValidation (H' ! b) = SkipLabelCountValidation (?H ! 0)"
       "skipUnmarshalingExemplars (H' ! b) = skipUnmarshalingExemplars (?H ! 0)"
    by blast
  from f have "b \<noteq> 0 \<and> H' ! 0 = example_request \<and>
     Source (H' ! b) = 1 \<and> SkipLabelValidation (H' ! b) \<and>
     \<not> SkipLabelCountValidation (H' ! b) \<and> skipUnmarshalingExemplars (H' ! b)"
    by (simp add: example_request_def)
  with c show ?thesis by blast
qed

text \<open>
  C9. The conversion ends in a nil-pointer fault exactly when the batch is not nil, is not
  already converted and has a nil entry in its metadata list; so a batch whose metadata
  entries are all non-nil never faults, and the precondition is needed, although
  \<open>FromMetricMetadataToMetadataRW2\<close> itself maps a nil entry to the zero value.
\<close>

theorem nil_metadata_fault:
  "((\<forall>m \<in> set (Metadata r). m \<noteq> None) \<longrightarrow>
      fst (FromWriteRequestToRW2Request E (Some r) common off P) \<noteq> Inl NilPointerDereference) \<and>
   (fst (FromWriteRequestToRW2Request E (Some r) common off P) = Inl NilPointerDereference \<longleftrightarrow>
      elems (SymbolsRW2 r) = [] \<and> elems (TimeseriesRW2 r) = [] \<and> None \<in> set (Metadata r)) \<and>
   fst (FromWriteRequestToRW2Request E None common off P) \<noteq> Inl NilPointerDereference \<and>
   FromMetricMetadataToMetadataRW2 symf None t = (zero_MetadataRW2, t)"
proof -
  have iff: "fst (FromWriteRequestToRW2Request E (Some r) common off P) = Inl NilPointerDereference \<longleftrightarrow>
      elems (SymbolsRW2 r) = [] \<and> elems (TimeseriesRW2 r) = [] \<and> None \<in> set (Metadata r)"
  proof (cases "elems (SymbolsRW2 r) = [] \<and> elems (TimeseriesRW2 r) = []")
    case True
    then have e: "elems (SymbolsRW2 r) = []" "elems (TimeseriesRW2 r) = []" by simp_all
    from conversion_outcome [OF e, of E common off P] e show ?thesis
      by (cases "None \<in> set (Metadata r)") auto
  next
    case False
    then have "elems (SymbolsRW2 r) \<noteq> [] \<or> elems (TimeseriesRW2 r) \<noteq> []" by simp
    from conversion_already [OF this, of E common off P] False show ?thesis by auto
  qed
  have nil: "fst (FromWriteRequestToRW2Request E None common off P) \<noteq> Inl NilPointerDereference"
    by (simp add: conversion_nil)
  have z: "FromMetricMetadataToMetadataRW2 symf None t = (zero_MetadataRW2, t)"
    by (simp add: FromMetricMetadataToMetadataRW2_def)
  have imp: "(\<forall>m \<in> set (Metadata r). m \<noteq> None) \<longrightarrow>
      fst (FromWriteRequestToRW2Request E (Some r) common off P) \<noteq> Inl NilPointerDereference"
    unfolding iff by auto
  from imp iff nil z show ?thesis by (intro conjI)
qed

theorem nil_metadata_fault_witness:
  "fst (FromWriteRequestToRW2Request example_Env (Some example_request) [] 0 empty_pools)
     \<noteq> Inl NilPointerDereference \<and>
   fst (FromWriteRequestToRW2Request example_Env (Some example_nil_metadata) [] 0 empty_pools)
     = Inl NilPointerDereference"
proof
  have h: "\<forall>m \<in> set (Metadata example_request). m \<noteq> None"
    by (simp add: example_request_def)
  from nil_metadata_fault [of example_request example_Env "[]" 0 empty_pools, THEN conjunct1] h
  show "fst (FromWriteRequestToRW2Request example_Env (Some example_request) [] 0 empty_pools)
     \<noteq> Inl NilPointerDereference" by (rule mp)
next
  have h: "elems (SymbolsRW2 example_nil_metadata) = [] \<and>
        elems (TimeseriesRW2 example_nil_metadata) = [] \<and>
        None \<in> set (Metadata example_nil_metadata)"
    by (simp add: example_nil_metadata_def example_request_def make_slice_def)
  from nil_metadata_fault [of example_nil_metadata example_Env "[]" 0 empty_pools,
         THEN conjunct2, THEN conjunct1] h
  show "fst (FromWriteRequestToRW2Request example_Env (Some example_nil_metadata) [] 0 empty_pools)
     = Inl NilPointerDereference" by (rule iffD2)
qed

text \<open>
  C10 as stated says that releasing a series buffer offers the \<open>LabelsRefs\<close> buffer of
  every element to the label-reference pool and overwrites the element. A series buffer of
  capacity 10001 whose first element has a \<open>LabelsRefs\<close> buffer of capacity 20 is
  discarded by the guard of line 63, before the loop of lines 67-70: the label-reference
  pool stays empty and the element is not overwritten.
\<close>

theorem discarded_series_buffer_keeps_nested:
  "reuseTimeSeriesRW2Slice (example_series_buffer\<lparr>cap := 10001\<rparr>) empty_pools
     = (example_series_buffer\<lparr>cap := 10001\<rparr>, empty_pools) \<and>
   preallocLabelsRefsSlicePool
     (snd (reuseTimeSeriesRW2Slice (example_series_buffer\<lparr>cap := 10001\<rparr>) empty_pools)) = [] \<and>
   elems (fst (reuseTimeSeriesRW2Slice (example_series_buffer\<lparr>cap := 10001\<rparr>) empty_pools)) ! 0
     \<noteq> zero_TimeSeriesRW2"
  by (simp add: reuseTimeSeriesRW2Slice_def maxPreallocatedTimeseriesRW2_def
        example_series_buffer_def empty_pools_def zero_TimeSeriesRW2_def make_slice_def)

text \<open>
  C10, as the code has it. When the series buffer is kept (capacity from 1 to 10000), its
  release offers the \<open>LabelsRefs\<close> buffer of every live element to the label-reference
  pool, which keeps those of capacity from 1 to 200 (resliced to length 0, the buffer of
  the last element on top), overwrites every live element with the zero value and then
  pools the series buffer. A series buffer of capacity 0 or above 10000 is returned from
  before the loop: its elements and their \<open>LabelsRefs\<close> buffers stay as they are and no
  pool changes. \<open>ReuseRW2\<close> releases the symbol slice of the request and then its series
  slice in this way.
\<close>

theorem cascading_release:
  "reuseTimeSeriesRW2Slice b P =
     (if 0 < cap b \<and> cap b \<le> 10000
      then (b\<lparr>elems := replicate (length (elems b)) zero_TimeSeriesRW2\<rparr>,
            P\<lparr>preallocLabelsRefsSlicePool :=
                 rev (retainedLabelsRefs (elems b)) @ preallocLabelsRefsSlicePool P,
               preallocTimeseriesRW2SlicePool :=
                 \<lparr>elems = [], cap = cap b\<rparr> # preallocTimeseriesRW2SlicePool P\<rparr>)
      else (b, P)) \<and>
   ReuseRW2 E (Some req) P =
     (Inr (req\<lparr>SymbolsRW2 := fst (reuseSymbolsSlice E (SymbolsRW2 req) P),
               TimeseriesRW2 := fst (reuseTimeSeriesRW2Slice (TimeseriesRW2 req) P)\<rparr>),
      snd (reuseTimeSeriesRW2Slice (TimeseriesRW2 req)
             (snd (reuseSymbolsSlice E (SymbolsRW2 req) P)))) \<and>
   preallocLabelsRefsSlicePool (snd (ReuseRW2 E (Some req) P)) =
     (if 0 < cap (TimeseriesRW2 req) \<and> cap (TimeseriesRW2 req) \<le> 10000
      then rev (retainedLabelsRefs (elems (TimeseriesRW2 req))) @ preallocLabelsRefsSlicePool P
      else preallocLabelsRefsSlicePool P)"
proof -
  have 1: "reuseTimeSeriesRW2Slice b P =
     (if 0 < cap b \<and> cap b \<le> 10000
      then (b\<lparr>elems := replicate (length (elems b)) zero_TimeSeriesRW2\<rparr>,
            P\<lparr>preallocLabelsRefsSlicePool :=
                 rev (retainedLabelsRefs (elems b)) @ preallocLabelsRefsSlicePool P,
               preallocTimeseriesRW2SlicePool :=
                 \<lparr>elems = [], cap = cap b\<rparr> # preallocTimeseriesRW2SlicePool P\<rparr>)
      else (b, P))"
    by (rule reuseTimeSeriesRW2Slice_eq)
  obtain s1 P1 where a: "reuseSymbolsSlice E (SymbolsRW2 req) P = (s1, P1)"
    by (cases "reuseSymbolsSlice E (SymbolsRW2 req) P")
  have p1: "preallocLabelsRefsSlicePool P1 = preallocLabelsRefsSlicePool P"
    using a by (auto simp: reuseSymbolsSlice_eq split: if_splits)
  have f: "fst (reuseTimeSeriesRW2Slice (TimeseriesRW2 req) P1)
             = fst (reuseTimeSeriesRW2Slice (TimeseriesRW2 req) P)"
    by (simp add: reuseTimeSeriesRW2Slice_eq)
  have 2: "ReuseRW2 E (Some req) P =
     (Inr (req\<lparr>SymbolsRW2 := fst (reuseSymbolsSlice E (SymbolsRW2 req) P),
               TimeseriesRW2 := fst (reuseTimeSeriesRW2Slice (TimeseriesRW2 req) P)\<rparr>),
      snd (reuseTimeSeriesRW2Slice (TimeseriesRW2 req)
             (snd (reuseSymbolsSlice E (SymbolsRW2 req) P))))"
    using f by (simp add: ReuseRW2_def a split_beta)
  have 3: "preallocLabelsRefsSlicePool (snd (ReuseRW2 E (Some req) P)) =
     (if 0 < cap (TimeseriesRW2 req) \<and> cap (TimeseriesRW2 req) \<le> 10000
      then rev (retainedLabelsRefs (elems (TimeseriesRW2 req))) @ preallocLabelsRefsSlicePool P
      else preallocLabelsRefsSlicePool P)"
    unfolding 2 using p1 by (simp add: a reuseTimeSeriesRW2Slice_eq)
  from 1 2 3 show ?thesis by (intro conjI)
qed

theorem cascading_release_witness:
  "reuseTimeSeriesRW2Slice example_series_buffer empty_pools =
     (\<lparr>elems = [zero_TimeSeriesRW2, zero_TimeSeriesRW2, zero_TimeSeriesRW2], cap = 100\<rparr>,
      \<lparr>preallocTimeseriesRW2SlicePool = [\<lparr>elems = [], cap = 100\<rparr>],
        preallocLabelsRefsSlicePool = [\<lparr>elems = [], cap = 2\<rparr>, \<lparr>elems = [], cap = 20\<rparr>],
        symbolsTablePool = 0, symbolsSlicePool = []\<rparr>)"
proof -
  have c: "0 < cap example_series_buffer \<and> cap example_series_buffer \<le> 10000"
    by (simp add: example_series_buffer_def)
  have r: "retainedLabelsRefs (elems example_series_buffer)
             = [\<lparr>elems = [], cap = 20\<rparr>, \<lparr>elems = [], cap = 2\<rparr>]"
    by (simp add: retainedLabelsRefs_def example_series_buffer_def zero_TimeSeriesRW2_def)
  have l: "replicate (length (elems example_series_buffer)) zero_TimeSeriesRW2
             = [zero_TimeSeriesRW2, zero_TimeSeriesRW2, zero_TimeSeriesRW2]"
    by (simp add: example_series_buffer_def numeral_3_eq_3)
  from cascading_release [of example_series_buffer empty_pools, THEN conjunct1] c
  have "reuseTimeSeriesRW2Slice example_series_buffer empty_pools =
     (example_series_buffer\<lparr>elems := replicate (length (elems example_series_buffer)) zero_TimeSeriesRW2\<rparr>,
      empty_pools\<lparr>preallocLabelsRefsSlicePool :=
                 rev (retainedLabelsRefs (elems example_series_buffer))
                   @ preallocLabelsRefsSlicePool empty_pools,
               preallocTimeseriesRW2SlicePool :=
                 \<lparr>elems = [], cap = cap example_series_buffer\<rparr>
                   # preallocTimeseriesRW2SlicePool empty_pools\<rparr>)"
    by simp
  then show ?thesis
    unfolding r l by (simp add: empty_pools_def example_series_buffer_def)
qed

end
